theory Spec2Isabelle
  imports Complex_Main "HOL-Library.Sublist"
begin

section \<open>Data model (types.ts)\<close>

text \<open>
  JavaScript numbers are modelled as exact reals: \<open>NaN\<close>, the infinities and the rounding
  error of IEEE doubles are outside the model. A member that may be \<open>undefined\<close> in the
  source is an \<open>option\<close>.

  \<open>GateResult.details\<close> is typed \<open>any\<close> in the source. The only code that looks inside it
  is the gate-3 rescale of \<open>processReport\<close>, which reads \<open>details.current?.val\<close> and
  \<open>details.reference?.val\<close>. A details object whose \<open>current\<close> and \<open>reference\<close> members are
  absent or are objects with an optional numeric \<open>val\<close> and an optional \<open>label\<close> is a
  \<open>Compression\<close> value; every other payload is carried unread as \<open>Other\<close>.
\<close>

datatype json =
    JNull
  | JBool bool
  | JNum real
  | JStr string
  | JArr "json list"
  | JObj "(string \<times> json) list"

record lens =
  val :: "real option"
  label :: "string option"

datatype details =
    Compression (current: "lens option") (reference: "lens option")
  | Other json

datatype gate_status = Passed | Warning | Failed

record GateResult =
  gateId :: int
  title :: string
  status :: gate_status
  score :: real
  description :: string
  details :: "details option"
  feedback :: "string list"

record Summary =
  aspectRatioScore :: real
  framingScore :: real
  compositionScore :: real
  compressionScore :: real

record AnalysisReport =
  timestamp :: string
  processingTime :: real
  finalScore :: real
  gates :: "GateResult list"
  summary :: "Summary option"
  overallFeedback :: string

section \<open>Report normalisation (processReport in runAnalysis)\<close>

text \<open>
  \<^verbatim>\<open>const toOneDecimal = (num: number) => Math.round(num * 10) / 10;\<close>
  \<open>Math.round\<close> rounds to the nearest integer, a tie going up: \<open>\<lfloor>x + 1/2\<rfloor>\<close>.
\<close>

definition Math_round :: "real \<Rightarrow> int" where
  "Math_round x = \<lfloor>x + 1 / 2\<rfloor>"

definition toOneDecimal :: "real \<Rightarrow> real" where
  "toOneDecimal num = of_int (Math_round (num * 10)) / 10"

text \<open>
  \<open>x?.val\<close> of an optional lens, and \<open>v || 0\<close> of an optional number
  (\<open>undefined || 0\<close> is 0). The comparison \<open>undefined > 1\<close> is false.
\<close>

definition optVal :: "lens option \<Rightarrow> real option" where
  "optVal l = (case l of None \<Rightarrow> None | Some x \<Rightarrow> val x)"

definition orZero :: "real option \<Rightarrow> real" where
  "orZero v = (case v of None \<Rightarrow> 0 | Some x \<Rightarrow> x)"

text \<open>\<open>{ ...l, val: v }\<close>: the spread of an absent object contributes no member.\<close>

definition withVal :: "lens option \<Rightarrow> real \<Rightarrow> lens" where
  "withVal l v = (case l of None \<Rightarrow> \<lparr>val = Some v, label = None\<rparr> | Some x \<Rightarrow> x\<lparr>val := Some v\<rparr>)"

text \<open>
  The rescale inside the callback of \<open>report.gates.map\<close>:
  \<^verbatim>\<open>
  if (g.details.current?.val > 1) {
    processed.details = { ...g.details,
      current: { ...g.details.current, val: g.details.current.val / 100 },
      reference: { ...g.details.reference, val: (g.details.reference?.val || 0) / 100 } };
  }\<close>
\<close>

fun rescaleDetails :: "details \<Rightarrow> details" where
  "rescaleDetails (Compression c r) =
     (case optVal c of
        None \<Rightarrow> Compression c r
      | Some v \<Rightarrow>
          if v > 1
          then Compression (Some (withVal c (v / 100)))
                           (Some (withVal r (orZero (optVal r) / 100)))
          else Compression c r)"
| "rescaleDetails (Other j) = Other j"

text \<open>
  The callback itself: \<open>processed = { ...g, score: toOneDecimal(g.score) }\<close>, then the
  rescale under \<open>isGptApi && g.gateId === 3 && g.details\<close>.
\<close>

definition processGate :: "bool \<Rightarrow> GateResult \<Rightarrow> GateResult" where
  "processGate isGptApi g =
     (let processed = g\<lparr>score := toOneDecimal (score g)\<rparr>
      in if isGptApi \<and> gateId g = 3 \<and> details g \<noteq> None
         then processed\<lparr>details := map_option rescaleDetails (details g)\<rparr>
         else processed)"

definition processSummary :: "Summary \<Rightarrow> Summary" where
  "processSummary s =
     s\<lparr>aspectRatioScore := toOneDecimal (aspectRatioScore s),
       framingScore := toOneDecimal (framingScore s),
       compositionScore := toOneDecimal (compositionScore s),
       compressionScore := toOneDecimal (compressionScore s)\<rparr>"

definition processReport :: "AnalysisReport \<Rightarrow> bool \<Rightarrow> AnalysisReport" where
  "processReport report isGptApi =
     report\<lparr>finalScore := toOneDecimal (finalScore report),
            gates := map (processGate isGptApi) (gates report),
            summary := map_option processSummary (summary report)\<rparr>"

text \<open>\<open>g.details.current?.val\<close> and \<open>g.details.reference?.val\<close> of a gate.\<close>

definition currentVal :: "GateResult \<Rightarrow> real option" where
  "currentVal g = (case details g of Some (Compression c r) \<Rightarrow> optVal c | _ \<Rightarrow> None)"

definition referenceVal :: "GateResult \<Rightarrow> real option" where
  "referenceVal g = (case details g of Some (Compression c r) \<Rightarrow> optVal r | _ \<Rightarrow> None)"

text \<open>\<open>g.details.current?.val > 1\<close>\<close>

definition currentAboveOne :: "GateResult \<Rightarrow> bool" where
  "currentAboveOne g = (case currentVal g of None \<Rightarrow> False | Some v \<Rightarrow> v > 1)"

text \<open>A number with at most one decimal digit: ten times it is an integer.\<close>

definition oneDecimal :: "real \<Rightarrow> bool" where
  "oneDecimal x = (of_int \<lfloor>x * 10\<rfloor> = x * 10)"

definition inRange :: "real \<Rightarrow> bool" where
  "inRange x = (0 \<le> x \<and> x \<le> 100)"

text \<open>
  \<open>y\<close> is \<open>x\<close> rounded to the nearest tenth, a tie going up: \<open>y\<close> has one decimal and lies
  in the half-open interval from \<open>x - 0.05\<close> (excluded) to \<open>x + 0.05\<close>. There is exactly one
  such number.
\<close>

definition nearestTenth :: "real \<Rightarrow> real \<Rightarrow> bool" where
  "nearestTenth x y = (oneDecimal y \<and> x - 1 / 20 < y \<and> y \<le> x + 1 / 20)"

text \<open>
  The canonical form the specification describes: every score has one decimal and lies in
  [0,100], and the \<open>val\<close> members of a gate-3 payload lie in [0,1].
\<close>

definition unitVal :: "real option \<Rightarrow> bool" where
  "unitVal v = (case v of None \<Rightarrow> True | Some x \<Rightarrow> 0 \<le> x \<and> x \<le> 1)"

definition canonicalScore :: "real \<Rightarrow> bool" where
  "canonicalScore x = (oneDecimal x \<and> inRange x)"

definition canonicalGate :: "GateResult \<Rightarrow> bool" where
  "canonicalGate g =
     (canonicalScore (score g) \<and>
      (gateId g = 3 \<longrightarrow>
         (case details g of
            Some (Compression c r) \<Rightarrow> unitVal (optVal c) \<and> unitVal (optVal r)
          | _ \<Rightarrow> True)))"

definition canonicalSummary :: "Summary \<Rightarrow> bool" where
  "canonicalSummary s =
     (canonicalScore (aspectRatioScore s) \<and> canonicalScore (framingScore s) \<and>
      canonicalScore (compositionScore s) \<and> canonicalScore (compressionScore s))"

definition canonical :: "AnalysisReport \<Rightarrow> bool" where
  "canonical r =
     (canonicalScore (finalScore r) \<and> list_all canonicalGate (gates r) \<and>
      (case summary r of None \<Rightarrow> True | Some s \<Rightarrow> canonicalSummary s))"

text \<open>The gate-3 \<open>current.val\<close> of a gate is on one of the two scales the rescale expects.\<close>

definition percentScale :: "GateResult \<Rightarrow> bool" where
  "percentScale g =
     (gateId g = 3 \<longrightarrow>
        (case details g of
           Some (Compression c r) \<Rightarrow> (case optVal c of None \<Rightarrow> True | Some v \<Rightarrow> v \<le> 100)
         | _ \<Rightarrow> True))"

section \<open>Text of the remote response (runAnalysis)\<close>

text \<open>
  Strings are byte strings (UTF-8). \<open>utf8\<close> writes the bytes of the non-ASCII text of the
  source.
\<close>

definition utf8 :: "nat list \<Rightarrow> string" where
  "utf8 bs = map char_of bs"

text \<open>
  \<open>s.replace(/pat/g, rep)\<close> for a literal pattern: the matches are found from the left and do
  not overlap.
\<close>

function replaceAll :: "string \<Rightarrow> string \<Rightarrow> string \<Rightarrow> string" where
  "replaceAll pat rep [] = []"
| "replaceAll pat rep (c # cs) =
     (if pat \<noteq> [] \<and> prefix pat (c # cs)
      then rep @ replaceAll pat rep (drop (length pat) (c # cs))
      else c # replaceAll pat rep cs)"
  by pat_completeness auto
termination
  by (relation "measure (\<lambda>(pat, rep, s). length s)") auto

text \<open>
  \<open>s.trim()\<close>. Of the white space and line terminators that \<open>trim\<close> removes, the ASCII ones
  are modelled (tab, line feed, vertical tab, form feed, carriage return, space).
\<close>

definition isWhitespace :: "char \<Rightarrow> bool" where
  "isWhitespace c = (c \<in> set [CHR 0x09, CHR 0x0A, CHR 0x0B, CHR 0x0C, CHR 0x0D, CHR 0x20])"

definition trim :: "string \<Rightarrow> string" where
  "trim s = rev (dropWhile isWhitespace (rev (dropWhile isWhitespace s)))"

text \<open>
  \<^verbatim>\<open>const cleanJson = jsonText.replace(/```json/g, '').replace(/```/g, '').trim();\<close>
\<close>

definition cleanJson :: "string \<Rightarrow> string" where
  "cleanJson jsonText = trim (replaceAll ''```'' '''' (replaceAll ''```json'' '''' jsonText))"

text \<open>A JSON document in a fence with the language tag \<open>json\<close>.\<close>

definition fenced :: "string \<Rightarrow> string \<Rightarrow> string \<Rightarrow> string" where
  "fenced sep1 doc sep2 = ''```json'' @ sep1 @ doc @ sep2 @ ''```''"

section \<open>Errors and the remote evaluator\<close>

text \<open>
  What the source can throw: an error of a request of the OpenAI client (\<open>err.status\<close> is
  the HTTP status, absent for a connection error), the \<open>OpenAIError\<close> of the client's
  constructor, the \<open>SyntaxError\<close> of \<open>JSON.parse\<close>, the rejection of \<open>fileToBase64\<close>, and
  the \<open>QuotaExceededError\<close> of \<open>localStorage.setItem\<close>. Only a request error has a status.
\<close>

datatype js_error =
    ApiError "int option" string
  | OpenAIError
  | SyntaxError
  | FileReadError
  | QuotaExceededError

fun errStatus :: "js_error \<Rightarrow> int option" where
  "errStatus (ApiError st msg) = st"
| "errStatus OpenAIError = None"
| "errStatus SyntaxError = None"
| "errStatus FileReadError = None"
| "errStatus QuotaExceededError = None"

text \<open>A chat completion: the \<open>message.content\<close> of each choice, when it has one.\<close>

datatype completion = Completion (choices: "string option list")

text \<open>\<^verbatim>\<open>apiResponse.choices[0]?.message?.content || ""\<close>\<close>

definition messageContent :: "completion \<Rightarrow> string" where
  "messageContent apiResponse =
     (case choices apiResponse of
        [] \<Rightarrow> ''''
      | c # _ \<Rightarrow> (case c of None \<Rightarrow> '''' | Some t \<Rightarrow> t))"

subsection \<open>Credential pool\<close>

text \<open>
  \<^verbatim>\<open>const API_KEYS = [env.VITE_GITHUB_TOKEN_1 || "", ..._2 || "", ..._3 || ""]
      .filter(key => key && key.length > 0);\<close>
\<close>

definition orEmpty :: "string option \<Rightarrow> string" where
  "orEmpty v = (case v of None \<Rightarrow> '''' | Some s \<Rightarrow> s)"

definition API_KEYS :: "string option \<Rightarrow> string option \<Rightarrow> string option \<Rightarrow> string list" where
  "API_KEYS token1 token2 token3 =
     filter (\<lambda>key. key \<noteq> '''' \<and> length key > 0)
       [orEmpty token1, orEmpty token2, orEmpty token3]"

text \<open>
  The module variable \<open>currentKeyIndex\<close>, and a trace of the requests made: the \<open>apiKey\<close> of
  each client on which \<open>chat.completions.create\<close> was called, oldest first.
\<close>

record pool_state =
  currentKeyIndex :: nat
  callLog :: "string list"

text \<open>
  \<open>getClient\<close> builds a client around \<open>API_KEYS[currentKeyIndex]\<close>, which is \<open>undefined\<close>
  out of range. The constructor of the openai package (not part of the repository) throws
  an \<open>OpenAIError\<close> when \<open>apiKey\<close> is \<open>undefined\<close>; otherwise the client is represented by its
  \<open>apiKey\<close>.
\<close>

definition getClient :: "string list \<Rightarrow> pool_state \<Rightarrow> js_error + string" where
  "getClient keys st =
     (if currentKeyIndex st < length keys then Inr (keys ! currentKeyIndex st)
      else Inl OpenAIError)"

text \<open>
  The remote evaluator is a parameter: \<open>create key messages n\<close> is what
  \<open>client.chat.completions.create\<close> yields on the client with this key, as the request
  number \<open>n\<close> (counted from 0) of the trace.
\<close>

type_synonym 'm remote = "string \<Rightarrow> 'm \<Rightarrow> nat \<Rightarrow> js_error + completion"

definition recoverable :: "js_error \<Rightarrow> bool" where
  "recoverable err =
     (errStatus err = Some 429 \<or> errStatus err = Some 401 \<or> errStatus err = Some 403)"

text \<open>
  The body of the \<open>try\<close> block: \<open>getClient()\<close>, then the request on that client. A throw
  of either reaches the same \<open>catch\<close>.
\<close>

definition attempt ::
  "string list \<Rightarrow> 'm remote \<Rightarrow> 'm \<Rightarrow> pool_state \<Rightarrow> (js_error + completion) \<times> pool_state"
where
  "attempt keys create messages st =
     (case getClient keys st of
        Inl err \<Rightarrow> (Inl err, st)
      | Inr key \<Rightarrow>
          (create key messages (length (callLog st)), st\<lparr>callLog := callLog st @ [key]\<rparr>))"

function callGptWithRetry ::
  "string list \<Rightarrow> 'm remote \<Rightarrow> 'm \<Rightarrow> nat \<Rightarrow> pool_state \<Rightarrow> (js_error + completion) \<times> pool_state"
where
  "callGptWithRetry keys create messages retryCount st =
     (let (outcome, st1) = attempt keys create messages st
      in case outcome of
           Inr response \<Rightarrow> (Inr response, st1)
         | Inl err \<Rightarrow>
             if recoverable err \<and> retryCount < length keys
             then callGptWithRetry keys create messages (retryCount + 1)
                    (st1\<lparr>currentKeyIndex := (currentKeyIndex st1 + 1) mod length keys\<rparr>)
             else (Inl err, st1))"
  by pat_completeness auto
termination
  by (relation "measure (\<lambda>(keys, create, messages, retryCount, st). length keys - retryCount)")
     auto

text \<open>
  A completion whose only choice carries the given text, and a remote evaluator that
  answers every call with it.
\<close>

definition sampleCompletion :: "string \<Rightarrow> completion" where
  "sampleCompletion text = Completion [Some text]"

definition answers :: "string \<Rightarrow> (string \<times> string) remote" where
  "answers text key messages n = Inr (sampleCompletion text)"

section \<open>The deterministic backend and its fallback (constants.ts, fetchAlgorithmResult)\<close>

text \<open>
  \<open>MOCK_ANALYSIS_RESULT\<close> of constants.ts. Its \<open>timestamp\<close> is the time at which the module
  was loaded, a parameter here.
\<close>

definition mockGate0 :: GateResult where
  "mockGate0 =
     \<lparr>gateId = 0,
      title = utf8 [0xEC, 0xA2, 0x85, 0xED, 0x9A, 0xA1, 0xEB, 0xB9, 0x84] @ '' '' @ utf8 [0xEC,
          0xB2, 0xB4, 0xED, 0x81, 0xAC],
      status = Passed,
      score = 100,
      description = utf8 [0xEB, 0xA0, 0x88, 0xED, 0x8D, 0xBC, 0xEB, 0x9F, 0xB0, 0xEC, 0x8A,
          0xA4] @ '' '' @ utf8 [0xEC, 0x9D, 0xB4, 0xEB, 0xAF, 0xB8, 0xEC, 0xA7, 0x80, 0xEC,
          0x99, 0x80] @ '' '' @ utf8 [0xEA, 0xB0, 0x80, 0xEB, 0xA1, 0x9C, 0xEC, 0x84, 0xB8,
          0xEB, 0xA1, 0x9C] @ '' '' @ utf8 [0xEB, 0xB9, 0x84, 0xEC, 0x9C, 0xA8, 0xEC, 0x9D,
          0xB4] @ '' '' @ utf8 [0xEC, 0x9D, 0xBC, 0xEC, 0xB9, 0x98, 0xED, 0x95, 0x98, 0xEB,
          0x8A, 0x94, 0xEC, 0xA7, 0x80] @ '' '' @ utf8 [0xED, 0x99, 0x95, 0xEC, 0x9D, 0xB8,
          0xED, 0x95, 0xA9, 0xEB, 0x8B, 0x88, 0xEB, 0x8B, 0xA4] @ ''.'',
      details = Some
       (Other (JObj [
           (''current'', JObj [
             (''width'', JNum 736),
             (''height'', JNum 920),
             (''ratio'', JNum (8 / 10)),
             (''label'', JStr (''3:4 ('' @ utf8 [0xEC, 0x84, 0xB8, 0xEB, 0xA1, 0x9C] @
                 '')''))]),
           (''reference'', JObj [
             (''width'', JNum 736),
             (''height'', JNum 919),
             (''ratio'', JNum (801 / 1000)),
             (''label'', JStr (''3:4 ('' @ utf8 [0xEC, 0x84, 0xB8, 0xEB, 0xA1, 0x9C] @
                 '')''))])])),
      feedback =
       [utf8 [0xEC, 0xA2, 0x85, 0xED, 0x9A, 0xA1, 0xEB, 0xB9, 0x84, 0xEA, 0xB0, 0x80] @ '' '' @
           utf8 [0xEC, 0x99, 0x84, 0xEB, 0xB2, 0xBD, 0xED, 0x95, 0x98, 0xEA, 0xB2, 0x8C] @
           '' '' @ utf8 [0xEC, 0x9D, 0xBC, 0xEC, 0xB9, 0x98, 0xED, 0x95, 0xA9, 0xEB, 0x8B,
           0x88, 0xEB, 0x8B, 0xA4] @ ''.'']\<rparr>"

definition mockGate1 :: GateResult where
  "mockGate1 =
     \<lparr>gateId = 1,
      title = utf8 [0xED, 0x94, 0x84, 0xEB, 0xA0, 0x88, 0xEC, 0x9D, 0xB4, 0xEB, 0xB0, 0x8D] @
          '' & '' @ utf8 [0xEC, 0x97, 0xAC, 0xEB, 0xB0, 0xB1],
      status = Warning,
      score = 74,
      description = utf8 [0xEC, 0x83, 0xB7] @ '' '' @ utf8 [0xED, 0x83, 0x80, 0xEC, 0x9E, 0x85]
          @ '', '' @ utf8 [0xEC, 0x9D, 0xB8, 0xEB, 0xAC, 0xBC] @ '' '' @ utf8 [0xED, 0x81,
          0xAC, 0xEA, 0xB8, 0xB0] @ '', '' @ utf8 [0xEC, 0x97, 0xAC, 0xEB, 0xB0, 0xB1, 0xEC,
          0x9D, 0x98] @ '' '' @ utf8 [0xEA, 0xB7, 0xA0, 0xED, 0x98, 0x95, 0xEC, 0x9D, 0x84] @
          '' '' @ utf8 [0xEC, 0xA0, 0x95, 0xEB, 0xB0, 0x80] @ '' '' @ utf8 [0xEB, 0xB6, 0x84,
          0xEC, 0x84, 0x9D, 0xED, 0x95, 0xA9, 0xEB, 0x8B, 0x88, 0xEB, 0x8B, 0xA4] @ ''.'',
      details = Some
       (Other (JObj [
           (''shotType'', JObj [
             (''current'', JStr (utf8 [0xEB, 0xAF, 0xB8, 0xEB, 0x94, 0x94, 0xEC, 0x97, 0x84,
                 0xEC, 0x83, 0xB7])),
             (''reference'', JStr (utf8 [0xEB, 0xAF, 0xB8, 0xEB, 0x94, 0x94, 0xEC, 0x97, 0x84,
                 0xEC, 0x83, 0xB7])),
             (''score'', JNum 95)]),
           (''subjectSize'', JObj [
             (''current'', JNum (189 / 10)),
             (''reference'', JNum (355 / 10)),
             (''score'', JNum 73),
             (''diff'', JNum (165 / 10))]),
           (''margins'', JObj [
             (''horizontal'', JObj [
               (''currentLeft'', JNum 38),
               (''currentRight'', JNum 18),
               (''refLeft'', JNum 29),
               (''refRight'', JNum 10),
               (''status'', JStr (''Perfect ('' @ utf8 [0xEC, 0x99, 0x84, 0xEB, 0xB2, 0xBD] @
                   '')'')),
               (''score'', JNum 95)]),
             (''vertical'', JObj [
               (''currentTop'', JNum 33),
               (''currentBottom'', JNum 24),
               (''refTop'', JNum 39),
               (''refBottom'', JNum 3),
               (''status'', JStr (utf8 [0xEC, 0xA1, 0xB0, 0xEC, 0xA0, 0x95] @ '' '' @ utf8
                   [0xED, 0x95, 0x84, 0xEC, 0x9A, 0x94])),
               (''score'', JNum 50)]),
             (''bottomIssue'', JStr (utf8 [0xED, 0x95, 0x98, 0xEB, 0x8B, 0xA8] @ '' '' @ utf8
                 [0xEC, 0x97, 0xAC, 0xEB, 0xB0, 0xB1, 0xEC, 0x9D, 0xB4] @ '' '' @ utf8 [0xEB,
                 0x84, 0x88, 0xEB, 0xAC, 0xB4] @ '' '' @ utf8 [0xEB, 0xA7, 0x8E, 0xEC, 0x8A,
                 0xB5, 0xEB, 0x8B, 0x88, 0xEB, 0x8B, 0xA4] @ ''.''))])])),
      feedback =
       [''1'' @ utf8 [0xEC, 0x88, 0x9C, 0xEC, 0x9C, 0x84] @ '': '' @ utf8 [0xEC, 0xB9, 0xB4,
           0xEB, 0xA9, 0x94, 0xEB, 0x9D, 0xBC, 0xEB, 0xA5, 0xBC] @ '' '' @ utf8 [0xED, 0x94,
           0xBC, 0xEC, 0x82, 0xAC, 0xEC, 0xB2, 0xB4] @ '' '' @ utf8 [0xEC, 0xAA, 0xBD, 0xEC,
           0x9C, 0xBC, 0xEB, 0xA1, 0x9C] @ '' '' @ utf8 [0xEB, 0x91, 0x90, 0xEC, 0x84, 0xB8] @
           '' '' @ utf8 [0xEA, 0xB1, 0xB8, 0xEC, 0x9D, 0x8C] @ '' '' @ utf8 [0xEC, 0x9D, 0xB4,
           0xEB, 0x8F, 0x99, 0xED, 0x95, 0x98, 0xEC, 0x84, 0xB8, 0xEC, 0x9A, 0x94] @ ''.'',
        ''2'' @ utf8 [0xEC, 0x88, 0x9C, 0xEC, 0x9C, 0x84] @ '': '' @ utf8 [0xEC, 0xB9, 0xB4,
            0xEB, 0xA9, 0x94, 0xEB, 0x9D, 0xBC, 0xEB, 0xA5, 0xBC] @ '' 15'' @ utf8 [0xEB, 0x8F,
            0x84] @ '' '' @ utf8 [0xEC, 0x9C, 0x84, 0xEB, 0xA1, 0x9C] @ '' '' @ utf8 [0xED,
            0x8B, 0xB8, 0xED, 0x8A, 0xB8, 0xED, 0x95, 0x98, 0xEC, 0x84, 0xB8, 0xEC, 0x9A, 0x94]
            @ ''.'']\<rparr>"

definition mockGate2 :: GateResult where
  "mockGate2 =
     \<lparr>gateId = 2,
      title = utf8 [0xEA, 0xB5, 0xAC, 0xEB, 0x8F, 0x84] @ '' & '' @ utf8 [0xEA, 0xB7, 0xB8,
          0xEB, 0xA6, 0xAC, 0xEB, 0x93, 0x9C],
      status = Passed,
      score = 90,
      description = utf8 [0xEC, 0xA3, 0xBC, 0xEC, 0x9A, 0x94] @ '' '' @ utf8 [0xED, 0x94, 0xBC,
          0xEC, 0x82, 0xAC, 0xEC, 0xB2, 0xB4] @ ''('' @ utf8 [0xEC, 0x96, 0xBC, 0xEA, 0xB5,
          0xB4] @ '' '' @ utf8 [0xEB, 0x93, 0xB1] @ '')'' @ utf8 [0xEC, 0x9D, 0x98] @ '' '' @
          utf8 [0xEA, 0xB8, 0xB0, 0xED, 0x95, 0x98, 0xED, 0x95, 0x99, 0xEC, 0xA0, 0x81] @ '' ''
          @ utf8 [0xEC, 0x9C, 0x84, 0xEC, 0xB9, 0x98, 0xEB, 0xA5, 0xBC] @ '' '' @ utf8 [0xED,
          0x99, 0x95, 0xEC, 0x9D, 0xB8, 0xED, 0x95, 0xA9, 0xEB, 0x8B, 0x88, 0xEB, 0x8B, 0xA4] @
          ''.'',
      details = Some
       (Other (JObj [
           (''facePosition'', JObj [
             (''current'', JObj [
               (''x'', JNum (52 / 100)),
               (''y'', JNum (38 / 100)),
               (''grid'', JStr (''(2, 2)''))]),
             (''reference'', JObj [
               (''x'', JNum (47 / 100)),
               (''y'', JNum (47 / 100)),
               (''grid'', JStr (''(2, 2)''))])])])),
      feedback =
       [utf8 [0xEA, 0xB5, 0xAC, 0xEB, 0x8F, 0x84] @ '' '' @ utf8 [0xEA, 0xB5, 0xAC, 0xEC, 0xA1,
           0xB0, 0xEA, 0xB0, 0x80] @ '' '' @ utf8 [0xEC, 0x9E, 0x98] @ '' '' @ utf8 [0xEC,
           0x9D, 0xBC, 0xEC, 0xB9, 0x98, 0xED, 0x95, 0xA9, 0xEB, 0x8B, 0x88, 0xEB, 0x8B, 0xA4]
           @ ''.'']\<rparr>"

definition mockGate3 :: GateResult where
  "mockGate3 =
     \<lparr>gateId = 3,
      title = utf8 [0xEC, 0x95, 0x95, 0xEC, 0xB6, 0x95, 0xEA, 0xB0, 0x90] @ '' ('' @ utf8
          [0xEB, 0xA0, 0x8C, 0xEC, 0xA6, 0x88] @ '')'',
      status = Passed,
      score = 95,
      description = utf8 [0xEC, 0xB4, 0x88, 0xEC, 0xA0, 0x90] @ '' '' @ utf8 [0xEA, 0xB1, 0xB0,
          0xEB, 0xA6, 0xAC, 0xEC, 0x99, 0x80] @ '' '' @ utf8 [0xEC, 0x9B, 0x90, 0xEA, 0xB7,
          0xBC, 0xEA, 0xB0, 0x90, 0xEC, 0x9D, 0x84] @ '' '' @ utf8 [0xEC, 0xB6, 0x94, 0xEC,
          0xA0, 0x95, 0xED, 0x95, 0x98, 0xEC, 0x97, 0xAC] @ '' '' @ utf8 [0xEB, 0xB6, 0x84,
          0xEC, 0x84, 0x9D, 0xED, 0x95, 0xA9, 0xEB, 0x8B, 0x88, 0xEB, 0x8B, 0xA4] @ ''.'',
      details = Some
       (Compression (Some \<lparr>val = Some (49 / 100), label = Some (utf8 [0xED, 0x91, 0x9C,
           0xEC, 0xA4, 0x80] @ '' '' @ utf8 [0xEB, 0xA0, 0x8C, 0xEC, 0xA6, 0x88])\<rparr>)
                     (Some \<lparr>val = Some (44 / 100), label = Some (utf8 [0xEC, 0xA4, 0x80,
                         0xEA, 0xB4, 0x91, 0xEA, 0xB0, 0x81] @ '' '' @ utf8 [0xEB, 0xA0, 0x8C,
                         0xEC, 0xA6, 0x88])\<rparr>)),
      feedback =
       [utf8 [0xEC, 0x95, 0x95, 0xEC, 0xB6, 0x95, 0xEA, 0xB0, 0x90, 0xEC, 0x9D, 0xB4] @ '' '' @
           utf8 [0xEC, 0x9D, 0xBC, 0xEC, 0xB9, 0x98, 0xED, 0x95, 0xA9, 0xEB, 0x8B, 0x88, 0xEB,
           0x8B, 0xA4] @ ''.'']\<rparr>"

definition mockGate4 :: GateResult where
  "mockGate4 =
     \<lparr>gateId = 4,
      title = utf8 [0xED, 0x8F, 0xAC, 0xEC, 0xA6, 0x88] @ '' '' @ utf8 [0xEB, 0x94, 0x94, 0xED,
          0x85, 0x8C, 0xEC, 0x9D, 0xBC],
      status = Passed,
      score = 95,
      description = utf8 [0xEB, 0xAF, 0xB8, 0xEC, 0x84, 0xB8, 0xED, 0x95, 0x9C] @ '' '' @ utf8
          [0xEC, 0x8B, 0xA0, 0xEC, 0xB2, 0xB4] @ '' '' @ utf8 [0xEB, 0x8F, 0x99, 0xEC, 0x9E,
          0x91, 0xEA, 0xB3, 0xBC] @ '' '' @ utf8 [0xEC, 0x9E, 0x90, 0xEC, 0x84, 0xB8, 0xEB,
          0xA5, 0xBC] @ '' '' @ utf8 [0xEB, 0xB6, 0x84, 0xEC, 0x84, 0x9D, 0xED, 0x95, 0xA9,
          0xEB, 0x8B, 0x88, 0xEB, 0x8B, 0xA4] @ ''.'',
      details = Some
       (Other (JObj [
           (''shoulderTilt'', JNum (56 / 10))])),
      feedback =
       [utf8 [0xED, 0x8F, 0xAC, 0xEC, 0xA6, 0x88] @ '' '' @ utf8 [0xEC, 0xA0, 0x95, 0xEB, 0xA0,
           0xAC, 0xEC, 0x9D, 0xB4] @ '' '' @ utf8 [0xEC, 0x96, 0x91, 0xED, 0x98, 0xB8, 0xED,
           0x95, 0xA9, 0xEB, 0x8B, 0x88, 0xEB, 0x8B, 0xA4] @ ''.'']\<rparr>"

definition MOCK_ANALYSIS_RESULT :: "string \<Rightarrow> AnalysisReport" where
  "MOCK_ANALYSIS_RESULT loadTime =
     \<lparr>timestamp = loadTime,
      processingTime = 113 / 10,
      finalScore = 91,
      gates = [mockGate0, mockGate1, mockGate2, mockGate3, mockGate4],
      summary = Some \<lparr>aspectRatioScore = 100, framingScore = 79,
                          compositionScore = 90, compressionScore = 95\<rparr>,
      overallFeedback =
        utf8 [0xEB, 0xA0, 0x88, 0xED, 0x8D, 0xBC, 0xEB, 0x9F, 0xB0, 0xEC, 0x8A, 0xA4, 0xEC,
            0x99, 0x80] @ '' '' @ utf8 [0xEB, 0xB9, 0x84, 0xEC, 0x8A, 0xB7, 0xED, 0x95, 0x98,
            0xEC, 0xA7, 0x80, 0xEB, 0xA7, 0x8C] @ '' '' @ utf8 [0xEB, 0xAF, 0xB8, 0xEC, 0x84,
            0xB8] @ '' '' @ utf8 [0xEC, 0xA1, 0xB0, 0xEC, 0xA0, 0x95, 0xEC, 0x9D, 0xB4] @ '' ''
            @ utf8 [0xED, 0x95, 0x84, 0xEC, 0x9A, 0x94, 0xED, 0x95, 0xA9, 0xEB, 0x8B, 0x88,
            0xEB, 0x8B, 0xA4] @ ''. '' @ utf8 [0xEC, 0xA3, 0xBC, 0xEB, 0xA1, 0x9C] @ '' '' @
            utf8 [0xEC, 0xB9, 0xB4, 0xEB, 0xA9, 0x94, 0xEB, 0x9D, 0xBC] @ '' '' @ utf8 [0xEC,
            0x9D, 0xB4, 0xEB, 0x8F, 0x99] @ '' '' @ utf8 [0xEC, 0xA1, 0xB0, 0xEC, 0xA0, 0x95,
            0xEC, 0x9D, 0xB4] @ '' '' @ utf8 [0xED, 0x95, 0x84, 0xEC, 0x9A, 0x94, 0xED, 0x95,
            0xB4] @ '' '' @ utf8 [0xEB, 0xB3, 0xB4, 0xEC, 0x9E, 0x85, 0xEB, 0x8B, 0x88, 0xEB,
            0x8B, 0xA4] @ ''.''\<rparr>"

text \<open>
  The \<open>overallFeedback\<close> of the fallback report. Its middle part reads "connection failed"
  in Korean.
\<close>

definition connectionFailureMarker :: string where
  "connectionFailureMarker =
     utf8 [0xEC, 0x97, 0xB0, 0xEA, 0xB2, 0xB0] @ '' '' @ utf8 [0xEC, 0x8B, 0xA4, 0xED, 0x8C, 0xA8]"

definition fallbackFeedback :: string where
  "fallbackFeedback =
     (utf8 [0xE2, 0x9A, 0xA0, 0xEF, 0xB8, 0x8F] @ '' Python '' @
      utf8 [0xEC, 0x84, 0x9C, 0xEB, 0xB2, 0x84] @ '' '') @
     connectionFailureMarker @
     ('' (Mock '' @ utf8 [0xEB, 0x8D, 0xB0, 0xEC, 0x9D, 0xB4, 0xED, 0x84, 0xB0] @ '' '' @
      utf8 [0xED, 0x91, 0x9C, 0xEC, 0x8B, 0x9C] @ '' '' @ utf8 [0xEC, 0xA4, 0x91] @
      ''). `uvicorn api_server_v3:app --reload` '' @ utf8 [0xEB, 0xA5, 0xBC] @ '' '' @
      utf8 [0xEC, 0x8B, 0xA4, 0xED, 0x96, 0x89, 0xED, 0x95, 0xB4, 0xEC, 0xA3, 0xBC, 0xEC, 0x84,
            0xB8, 0xEC, 0x9A, 0x94] @ ''.'')"

text \<open>
  An uploaded file: its name and what \<open>FileReader.readAsDataURL\<close> yields for it
  (\<open>None\<close> when the reader fires \<open>onerror\<close>).
\<close>

record File =
  fileName :: string
  dataURL :: "string option"

definition fileToBase64 :: "File \<Rightarrow> js_error + string" where
  "fileToBase64 f = (case dataURL f of None \<Rightarrow> Inl FileReadError | Some d \<Rightarrow> Inr d)"

text \<open>
  The answer to \<open>POST /api/analyze\<close>: the \<open>fetch\<close> promise rejects (connection error), or
  there is a response with a status and a body; the body is \<open>None\<close> when
  \<open>response.json()\<close> rejects.
\<close>

datatype fetch_outcome =
    FetchRejected
  | FetchResponse nat "AnalysisReport option"

definition response_ok :: "nat \<Rightarrow> bool" where
  "response_ok st = (200 \<le> st \<and> st \<le> 299)"

definition fallbackReport :: "string \<Rightarrow> AnalysisReport" where
  "fallbackReport loadTime =
     (MOCK_ANALYSIS_RESULT loadTime)\<lparr>overallFeedback := fallbackFeedback\<rparr>"

definition fetchAlgorithmResult ::
  "string \<Rightarrow> (File \<Rightarrow> File \<Rightarrow> fetch_outcome) \<Rightarrow> File \<Rightarrow> File \<Rightarrow> AnalysisReport" where
  "fetchAlgorithmResult loadTime fetchAnalyze refFile userFile =
     (case fetchAnalyze refFile userFile of
        FetchRejected \<Rightarrow> fallbackReport loadTime
      | FetchResponse st body \<Rightarrow>
          if \<not> response_ok st then fallbackReport loadTime
          else (case body of None \<Rightarrow> fallbackReport loadTime | Some data \<Rightarrow> data))"


section \<open>Application state, history and the analysis session (App)\<close>

record HistoryItem =
  id_h :: string
  timestamp_h :: string
  refImageBase64 :: string
  userImageBase64 :: string
  apiResult_h :: AnalysisReport
  algoResult_h :: AnalysisReport

text \<open>
  The React state of \<open>App\<close> that \<open>runAnalysis\<close> reads or writes, the \<open>tryangle_history\<close>
  entry of \<open>localStorage\<close> (\<open>None\<close> while nothing is stored), and the credential pool.
  \<open>error\<close> holds the error whose message \<open>setError\<close> displays.
\<close>

record app_state =
  refFile :: "File option"
  userFile :: "File option"
  isAnalyzing :: bool
  isAnimDone :: bool
  showResults :: bool
  apiResult :: "AnalysisReport option"
  algoResult :: "AnalysisReport option"
  error :: "js_error option"
  history :: "HistoryItem list"
  localStorage :: "HistoryItem list option"
  pool :: pool_state

text \<open>
  \<^verbatim>\<open>
  const newHistory = [...history, item];
  if (newHistory.length > 20) newHistory.shift();
  setHistory(newHistory);
  localStorage.setItem('tryangle_history', JSON.stringify(newHistory));\<close>
  \<open>setItem\<close> throws a \<open>QuotaExceededError\<close> when the storage does not take the value;
  \<open>accepts\<close> says whether it takes a list. The state update has happened by then.
\<close>

definition saveToHistory ::
  "(HistoryItem list \<Rightarrow> bool) \<Rightarrow> HistoryItem \<Rightarrow> app_state \<Rightarrow> (js_error + unit) \<times> app_state"
where
  "saveToHistory accepts item st =
     (let appended = history st @ [item];
          newHistory = (if length appended > 20 then tl appended else appended);
          st1 = st\<lparr>history := newHistory\<rparr>
      in if accepts newHistory then (Inr (), st1\<lparr>localStorage := Some newHistory\<rparr>)
         else (Inl QuotaExceededError, st1))"

text \<open>
  What \<open>runAnalysis\<close> takes from outside: the remote evaluator, the backend's answer for a
  pair of files, \<open>JSON.parse\<close> followed by the cast to \<open>AnalysisReport\<close> (\<open>None\<close> when it
  throws), whether \<open>localStorage\<close> takes a history, the clock, and the load time of the
  module.
\<close>

record env =
  chatCreate :: "(string \<times> string) remote"
  fetchAnalyze :: "File \<Rightarrow> File \<Rightarrow> fetch_outcome"
  JSON_parse :: "string \<Rightarrow> AnalysisReport option"
  storageAccepts :: "HistoryItem list \<Rightarrow> bool"
  Date_now :: string
  Date_toISOString :: string
  moduleLoadTime :: string

text \<open>The \<open>catch\<close> block of \<open>runAnalysis\<close>.\<close>

definition catchError :: "js_error \<Rightarrow> app_state \<Rightarrow> app_state" where
  "catchError err st = st\<lparr>error := Some err, isAnalyzing := False\<rparr>"

text \<open>
  \<open>runAnalysis\<close>. The request of the remote call is determined by the two encoded images.
  Both calls are started before either result is awaited; a rejection of the remote
  promise rejects \<open>Promise.all\<close>, and the backend promise never rejects. Everything after
  the first two lines is inside the \<open>try\<close>, \<open>saveToHistory\<close> included.
\<close>

definition runAnalysis :: "string list \<Rightarrow> env \<Rightarrow> app_state \<Rightarrow> app_state" where
  "runAnalysis keys e st0 =
     (case (refFile st0, userFile st0) of
        (Some rf, Some uf) \<Rightarrow>
          (let st = st0\<lparr>isAnalyzing := True, showResults := False, apiResult := None,
                        algoResult := None, isAnimDone := False, error := None\<rparr>
           in case fileToBase64 rf of
                Inl err \<Rightarrow> catchError err st
              | Inr refBase64 \<Rightarrow>
                 (case fileToBase64 uf of
                    Inl err \<Rightarrow> catchError err st
                  | Inr userBase64 \<Rightarrow>
                     (let (apiOutcome, pool') =
                            callGptWithRetry keys (chatCreate e) (refBase64, userBase64) 0 (pool st);
                          st = st\<lparr>pool := pool'\<rparr>;
                          algoResponse =
                            fetchAlgorithmResult (moduleLoadTime e) (fetchAnalyze e) rf uf
                      in case apiOutcome of
                           Inl err \<Rightarrow> catchError err st
                         | Inr apiResponse \<Rightarrow>
                            (case JSON_parse e (cleanJson (messageContent apiResponse)) of
                               None \<Rightarrow> catchError SyntaxError st
                             | Some parsed \<Rightarrow>
                                (let jsonData = processReport parsed True;
                                     st = st\<lparr>apiResult := Some jsonData\<rparr>;
                                     cleanAlgo = processReport algoResponse False;
                                     st = st\<lparr>algoResult := Some cleanAlgo\<rparr>;
                                     (saved, st) =
                                       saveToHistory (storageAccepts e)
                                         \<lparr>id_h = Date_now e,
                                          timestamp_h = Date_toISOString e,
                                          refImageBase64 = refBase64,
                                          userImageBase64 = userBase64,
                                          apiResult_h = jsonData,
                                          algoResult_h = cleanAlgo\<rparr> st
                                 in case saved of
                                      Inl err \<Rightarrow> catchError err st
                                    | Inr _ \<Rightarrow> st)))))
      | _ \<Rightarrow> st0)"

section \<open>Sample inputs\<close>

definition sampleGate3 :: "real \<Rightarrow> real \<Rightarrow> GateResult" where
  "sampleGate3 cur ref =
     \<lparr>gateId = 3, title = ''compression'', status = Passed, score = 9556 / 100,
      description = ''lens'',
      details = Some (Compression (Some \<lparr>val = Some cur, label = Some ''Tele''\<rparr>)
                                  (Some \<lparr>val = Some ref, label = Some ''Standard''\<rparr>)),
      feedback = []\<rparr>"

definition sampleRaw :: "real \<Rightarrow> real \<Rightarrow> real \<Rightarrow> AnalysisReport" where
  "sampleRaw final cur ref =
     \<lparr>timestamp = ''2024-01-01T00:00:00'', processingTime = 2, finalScore = final,
      gates = [sampleGate3 cur ref],
      summary = Some \<lparr>aspectRatioScore = 100, framingScore = 7944 / 100,
                      compositionScore = 90, compressionScore = 9507 / 100\<rparr>,
      overallFeedback = ''ok''\<rparr>"

text \<open>The JSON text of \<open>sampleRaw (9126 / 100) 82 44\<close>, as the remote evaluator would send it.\<close>

definition sampleJson :: string where
  \<open>sampleJson =
     ''{"timestamp":"2024-01-01T00:00:00","processingTime":2,"finalScore":91.26,'' @
     ''"gates":[{"gateId":3,"title":"compression","status":"passed","score":95.56,'' @
     ''"description":"lens","details":{"current":{"val":82,"label":"Tele"},'' @
     ''"reference":{"val":44,"label":"Standard"}},"feedback":[]}],'' @
     ''"summary":{"aspectRatioScore":100,"framingScore":79.44,"compositionScore":90,'' @
     ''"compressionScore":95.07},"overallFeedback":"ok"}''\<close>

text \<open>\<open>JSON.parse\<close> on the texts the samples use: it knows \<open>sampleJson\<close> and rejects the rest.\<close>

definition sampleParse :: "string \<Rightarrow> AnalysisReport option" where
  "sampleParse text =
     (if text = sampleJson then Some (sampleRaw (9126 / 100) 82 44) else None)"

definition pool0 :: pool_state where
  "pool0 = \<lparr>currentKeyIndex = 0, callLog = []\<rparr>"

definition rateLimited :: js_error where
  "rateLimited = ApiError (Some 429) ''Too Many Requests''"

definition alwaysRateLimited :: "(string \<times> string) remote" where
  "alwaysRateLimited key messages n = Inl rateLimited"



definition onlyThirdKeyWorks :: "(string \<times> string) remote" where
  "onlyThirdKeyWorks key messages n =
     (if key = ''key-3'' then Inr (sampleCompletion sampleJson) else Inl rateLimited)"

definition sampleFile :: "string \<Rightarrow> File" where
  "sampleFile name = \<lparr>fileName = name, dataURL = Some (''data:'' @ name)\<rparr>"

definition sampleEnv ::
  "(string \<times> string) remote \<Rightarrow> fetch_outcome \<Rightarrow> (HistoryItem list \<Rightarrow> bool) \<Rightarrow> env" where
  "sampleEnv create backend accepts =
     \<lparr>chatCreate = create, fetchAnalyze = (\<lambda>rf uf. backend), JSON_parse = sampleParse,
      storageAccepts = accepts,
      Date_now = ''1700000000000'', Date_toISOString = ''2023-11-14T22:13:20.000Z'',
      moduleLoadTime = ''2023-11-14T22:00:00.000Z''\<rparr>"

text \<open>A storage with room for everything, and one that is full.\<close>

definition roomy :: "HistoryItem list \<Rightarrow> bool" where
  "roomy h = True"

definition full :: "HistoryItem list \<Rightarrow> bool" where
  "full h = False"

definition sampleItem :: "string \<Rightarrow> HistoryItem" where
  "sampleItem name =
     \<lparr>id_h = name, timestamp_h = ''2023-11-14T22:13:20.000Z'', refImageBase64 = ''data:ref'',
      userImageBase64 = ''data:user'',
      apiResult_h = sampleRaw 91 (41 / 50) (11 / 25),
      algoResult_h = sampleRaw 91 (41 / 50) (11 / 25)\<rparr>"

definition fullHistory :: "HistoryItem list" where
  "fullHistory = sampleItem ''oldest'' # replicate 19 (sampleItem ''later'')"

definition sampleState :: "HistoryItem list \<Rightarrow> app_state" where
  "sampleState h =
     \<lparr>refFile = Some (sampleFile ''ref''), userFile = Some (sampleFile ''user''),
      isAnalyzing = False, isAnimDone = False, showResults = False, apiResult = None,
      algoResult = None, error = None, history = h, localStorage = None, pool = pool0\<rparr>"

section \<open>Properties of the normaliser\<close>

lemma oneDecimal_toOneDecimal: "oneDecimal (toOneDecimal x)"
  by (simp add: oneDecimal_def toOneDecimal_def)

lemma toOneDecimal_fixed: "oneDecimal x \<Longrightarrow> toOneDecimal x = x"
proof -
  assume h: "oneDecimal x"
  have "\<lfloor>x * 10 + 1 / 2\<rfloor> = \<lfloor>x * 10\<rfloor>"
  proof -
    have "x * 10 = of_int \<lfloor>x * 10\<rfloor>" using h[unfolded oneDecimal_def] by (rule sym)
    then have "x * 10 + 1/2 = of_int \<lfloor>x * 10\<rfloor> + 1/2" by simp
    then have "\<lfloor>x * 10 + 1 / 2\<rfloor> = \<lfloor>of_int \<lfloor>x * 10\<rfloor> + (1/2::real)\<rfloor>" by simp
    also have "\<dots> = \<lfloor>x * 10\<rfloor>" by linarith
    finally show ?thesis .
  qed
  then have "toOneDecimal x = of_int \<lfloor>x * 10\<rfloor> / 10"
    by (simp add: toOneDecimal_def Math_round_def)
  also have "\<dots> = x" using h[unfolded oneDecimal_def] by simp
  finally show ?thesis .
qed

lemma toOneDecimal_idem: "toOneDecimal (toOneDecimal x) = toOneDecimal x"
  by (rule toOneDecimal_fixed[OF oneDecimal_toOneDecimal])

lemma toOneDecimal_inRange: "inRange x \<Longrightarrow> inRange (toOneDecimal x)"
  unfolding inRange_def toOneDecimal_def Math_round_def
  by (auto simp: le_floor_iff floor_le_iff)

lemma gates_processReport: "gates (processReport r b) = map (processGate b) (gates r)"
  by (simp add: processReport_def)

lemma finalScore_processReport: "finalScore (processReport r b) = toOneDecimal (finalScore r)"
  by (simp add: processReport_def)

lemma summary_processReport: "summary (processReport r b) = map_option processSummary (summary r)"
  by (simp add: processReport_def)

lemma score_processGate: "score (processGate b g) = toOneDecimal (score g)"
  by (simp add: processGate_def Let_def)

lemma details_processGate:
  "details (processGate b g) =
     (if b \<and> gateId g = 3 then map_option rescaleDetails (details g) else details g)"
  by (cases "details g") (simp_all add: processGate_def Let_def)

lemma nearestTenth_toOneDecimal: "nearestTenth x (toOneDecimal x)"
proof -
  have "x - 1 / 20 < toOneDecimal x" "toOneDecimal x \<le> x + 1 / 20"
    unfolding toOneDecimal_def Math_round_def by linarith+
  then show ?thesis by (simp add: nearestTenth_def oneDecimal_toOneDecimal)
qed

lemma nearestTenth_unique: "nearestTenth x y \<Longrightarrow> y = toOneDecimal x"
proof -
  assume h: "nearestTenth x y"
  then have k: "of_int \<lfloor>y * 10\<rfloor> = y * 10" by (simp only: nearestTenth_def oneDecimal_def)
  from h have b: "x - 1 / 20 < y" "y \<le> x + 1 / 20" by (simp_all only: nearestTenth_def)
  have "\<lfloor>x * 10 + 1 / 2\<rfloor> = \<lfloor>y * 10\<rfloor>"
  proof (rule floor_unique)
    show "of_int \<lfloor>y * 10\<rfloor> \<le> x * 10 + 1 / 2" using k b by linarith
    show "x * 10 + 1 / 2 < of_int \<lfloor>y * 10\<rfloor> + 1" using k b by linarith
  qed
  then have "toOneDecimal x = of_int \<lfloor>y * 10\<rfloor> / 10"
    by (simp add: toOneDecimal_def Math_round_def)
  then show ?thesis using k by simp
qed

lemma nearestTenth_range:
  assumes h: "nearestTenth x y"
  shows "(inRange x \<longrightarrow> inRange y) \<and> (100 + 1 / 20 \<le> x \<longrightarrow> 100 < y) \<and> (x < - (1 / 20) \<longrightarrow> y < 0)"
proof -
  have y: "y = toOneDecimal x" by (rule nearestTenth_unique [OF h])
  from h have b: "x - 1 / 20 < y" "y \<le> x + 1 / 20" by (simp_all only: nearestTenth_def)
  show ?thesis using b toOneDecimal_inRange [of x] by (auto simp: y)
qed

text \<open>
  C1 (as stated): every score of a normalised report lies in [0,100]. \<open>processReport\<close> has no
  clamp: a raw final score of 150 is still 150 afterwards.
\<close>

theorem processReport_no_clamp_counterexample:
  "finalScore (processReport (sampleRaw 150 82 44) True) = 150 \<and>
   \<not> inRange (finalScore (processReport (sampleRaw 150 82 44) True))"
  by (simp add: finalScore_processReport sampleRaw_def toOneDecimal_def Math_round_def inRange_def)

text \<open>
  C1 (amended): in every report returned by \<open>processReport\<close>, the final score, each gate
  score and each summary score (when the report has a summary) is the raw score rounded
  to the nearest tenth, a tie going up: it has at most one decimal digit and differs from
  the raw score by at most 0.05. So a score that was in [0,100] is in [0,100] afterwards.
  Nothing is clamped: a raw score of 100.05 or more stays above 100, and a raw score below
  -0.05 stays below 0.
\<close>

theorem processReport_rounds_without_clamp:
  "nearestTenth (finalScore r) (finalScore (processReport r b)) \<and>
   length (gates (processReport r b)) = length (gates r) \<and>
   (\<forall>i < length (gates r).
      nearestTenth (score (gates r ! i)) (score (gates (processReport r b) ! i))) \<and>
   (summary r = None \<longrightarrow> summary (processReport r b) = None) \<and>
   (\<forall>s. summary r = Some s \<longrightarrow>
      (\<exists>s'. summary (processReport r b) = Some s' \<and>
         nearestTenth (aspectRatioScore s) (aspectRatioScore s') \<and>
         nearestTenth (framingScore s) (framingScore s') \<and>
         nearestTenth (compositionScore s) (compositionScore s') \<and>
         nearestTenth (compressionScore s) (compressionScore s'))) \<and>
   (\<forall>x y. nearestTenth x y \<longrightarrow>
      y = toOneDecimal x \<and> \<bar>y - x\<bar> \<le> 1 / 20 \<and> (inRange x \<longrightarrow> inRange y) \<and>
      (100 + 1 / 20 \<le> x \<longrightarrow> 100 < y) \<and> (x < - (1 / 20) \<longrightarrow> y < 0))"
proof (intro conjI)
  show "nearestTenth (finalScore r) (finalScore (processReport r b))"
    by (simp add: finalScore_processReport nearestTenth_toOneDecimal)
  show "length (gates (processReport r b)) = length (gates r)"
    by (simp add: gates_processReport)
  show "\<forall>i < length (gates r).
      nearestTenth (score (gates r ! i)) (score (gates (processReport r b) ! i))"
    by (simp add: gates_processReport score_processGate nearestTenth_toOneDecimal)
  show "summary r = None \<longrightarrow> summary (processReport r b) = None"
    by (simp add: summary_processReport)
  show "\<forall>s. summary r = Some s \<longrightarrow>
      (\<exists>s'. summary (processReport r b) = Some s' \<and>
         nearestTenth (aspectRatioScore s) (aspectRatioScore s') \<and>
         nearestTenth (framingScore s) (framingScore s') \<and>
         nearestTenth (compositionScore s) (compositionScore s') \<and>
         nearestTenth (compressionScore s) (compressionScore s'))"
    by (simp add: summary_processReport processSummary_def nearestTenth_toOneDecimal)
  show "\<forall>x y. nearestTenth x y \<longrightarrow>
      y = toOneDecimal x \<and> \<bar>y - x\<bar> \<le> 1 / 20 \<and> (inRange x \<longrightarrow> inRange y) \<and>
      (100 + 1 / 20 \<le> x \<longrightarrow> 100 < y) \<and> (x < - (1 / 20) \<longrightarrow> y < 0)"
  proof (intro allI impI)
    fix x y assume h: "nearestTenth x y"
    from h have "\<bar>y - x\<bar> \<le> 1 / 20" by (simp only: nearestTenth_def) linarith
    then show "y = toOneDecimal x \<and> \<bar>y - x\<bar> \<le> 1 / 20 \<and> (inRange x \<longrightarrow> inRange y) \<and>
      (100 + 1 / 20 \<le> x \<longrightarrow> 100 < y) \<and> (x < - (1 / 20) \<longrightarrow> y < 0)"
      using nearestTenth_unique [OF h] nearestTenth_range [OF h] by simp
  qed
qed

theorem processReport_rounds_without_clamp_witness:
  "0 < length (gates (sampleRaw (9126 / 100) 82 44)) \<and>
   score (gates (sampleRaw (9126 / 100) 82 44) ! 0) = 9556 / 100 \<and>
   score (gates (processReport (sampleRaw (9126 / 100) 82 44) True) ! 0) = 956 / 10 \<and>
   nearestTenth (9556 / 100) (956 / 10) \<and>
   summary (sampleRaw (9126 / 100) 82 44) =
     Some \<lparr>aspectRatioScore = 100, framingScore = 7944 / 100, compositionScore = 90,
           compressionScore = 9507 / 100\<rparr> \<and>
   summary (processReport (sampleRaw (9126 / 100) 82 44) True) =
     Some \<lparr>aspectRatioScore = 100, framingScore = 794 / 10, compositionScore = 90,
           compressionScore = 951 / 10\<rparr> \<and>
   finalScore (processReport (sampleRaw (9126 / 100) 82 44) True) = 913 / 10 \<and>
   nearestTenth (9126 / 100) (913 / 10) \<and> inRange (9126 / 100) \<and> inRange (913 / 10) \<and>
   nearestTenth (10004 / 100) 100 \<and> inRange 100 \<and>
   nearestTenth (10005 / 100) (1001 / 10) \<and> 100 + 1 / 20 \<le> (10005 / 100 :: real) \<and>
   nearestTenth (- (6 / 100)) (- (1 / 10)) \<and> - (6 / 100) < (- (1 / 20) :: real)"
  using processReport_rounds_without_clamp [of "sampleRaw (9126 / 100) 82 44" True]
  by (simp add: processReport_def sampleRaw_def sampleGate3_def processGate_def
      processSummary_def toOneDecimal_def Math_round_def inRange_def nearestTenth_def
      oneDecimal_def)



text \<open>
  C10: on the remote path, the \<open>details.reference.val\<close> of a gate 3 is divided by 100
  exactly when \<open>details.current.val\<close> is greater than 1, whatever the reference value is
  (an absent reference value counts as 0); otherwise it is left as it is.
\<close>

theorem gate3_reference_keyed_on_current:
  "\<forall>i < length (gates r). gateId (gates r ! i) = 3 \<longrightarrow>
      referenceVal (gates (processReport r True) ! i) =
        (if currentAboveOne (gates r ! i)
         then Some (orZero (referenceVal (gates r ! i)) / 100)
         else referenceVal (gates r ! i))"
proof (intro allI impI)
  fix i assume i: "i < length (gates r)" and h: "gateId (gates r ! i) = 3"
  have g': "gates (processReport r True) ! i = processGate True (gates r ! i)"
    using i by (simp add: gates_processReport)
  show "referenceVal (gates (processReport r True) ! i) =
        (if currentAboveOne (gates r ! i)
         then Some (orZero (referenceVal (gates r ! i)) / 100)
         else referenceVal (gates r ! i))"
    using h
    by (auto simp: g' referenceVal_def currentAboveOne_def currentVal_def details_processGate
        optVal_def withVal_def split: option.splits details.splits)
qed

theorem gate3_reference_keyed_on_current_witness:
  "0 < length (gates (sampleRaw 91 (49 / 100) 44)) \<and>
   gateId (gates (sampleRaw 91 (49 / 100) 44) ! 0) = 3 \<and>
   \<not> currentAboveOne (gates (sampleRaw 91 (49 / 100) 44) ! 0) \<and>
   referenceVal (gates (processReport (sampleRaw 91 (49 / 100) 44) True) ! 0) = Some 44 \<and>
   gateId (gates (sampleRaw 91 82 (44 / 100)) ! 0) = 3 \<and>
   currentAboveOne (gates (sampleRaw 91 82 (44 / 100)) ! 0) \<and>
   referenceVal (gates (processReport (sampleRaw 91 82 (44 / 100)) True) ! 0) = Some (44 / 10000)"
  using gate3_reference_keyed_on_current [of "sampleRaw 91 (49 / 100) 44"]
    gate3_reference_keyed_on_current [of "sampleRaw 91 82 (44 / 100)"]
  by (simp add: sampleRaw_def sampleGate3_def currentVal_def referenceVal_def currentAboveOne_def
      optVal_def orZero_def)

lemma processGate_fixed: "canonicalGate g \<Longrightarrow> processGate b g = g"
proof -
  assume h: "canonicalGate g"
  then have sc: "toOneDecimal (score g) = score g"
    by (simp add: canonicalGate_def canonicalScore_def toOneDecimal_fixed)
  have "map_option rescaleDetails (details g) = details g" if "gateId g = 3"
  proof (cases "details g")
    case None
    then show ?thesis by simp
  next
    case (Some d)
    then show ?thesis using h that
      by (cases d) (auto simp: canonicalGate_def unitVal_def split: option.splits)
  qed
  then show ?thesis using sc by (simp add: processGate_def Let_def)
qed

lemma processSummary_fixed: "canonicalSummary s \<Longrightarrow> processSummary s = s"
  by (simp add: canonicalSummary_def canonicalScore_def processSummary_def toOneDecimal_fixed)

lemma processReport_fixed: "canonical r \<Longrightarrow> processReport r b = r"
proof -
  assume h: "canonical r"
  have g: "map (processGate b) (gates r) = gates r"
    using h by (intro map_idI) (simp add: canonical_def list_all_iff processGate_fixed)
  have s: "map_option processSummary (summary r) = summary r"
    using h by (cases "summary r") (simp_all add: canonical_def processSummary_fixed)
  have f: "toOneDecimal (finalScore r) = finalScore r"
    using h by (simp add: canonical_def canonicalScore_def toOneDecimal_fixed)
  show ?thesis by (simp add: processReport_def g s f)
qed

lemma processSummary_idem: "processSummary (processSummary s) = processSummary s"
  by (simp add: processSummary_def toOneDecimal_idem)

lemma rescaleDetails_idem:
  "(case d of Compression c r \<Rightarrow> (case optVal c of None \<Rightarrow> True | Some v \<Rightarrow> v \<le> 100)
            | Other j \<Rightarrow> True) \<Longrightarrow>
   rescaleDetails (rescaleDetails d) = rescaleDetails d"
  by (cases d) (auto simp: optVal_def withVal_def split: option.splits)

lemma processGate_idem:
  "b \<longrightarrow> percentScale g \<Longrightarrow> processGate b (processGate b g) = processGate b g"
proof -
  assume h: "b \<longrightarrow> percentScale g"
  have "map_option rescaleDetails (map_option rescaleDetails (details g)) =
        map_option rescaleDetails (details g)" if "b" "gateId g = 3"
  proof (cases "details g")
    case None
    then show ?thesis by simp
  next
    case (Some d)
    then have "rescaleDetails (rescaleDetails d) = rescaleDetails d"
      using h that by (intro rescaleDetails_idem) (auto simp: percentScale_def split: details.splits)
    then show ?thesis using Some by simp
  qed
  then show ?thesis
    by (cases "details g") (auto simp: processGate_def Let_def toOneDecimal_idem)
qed

lemma processReport_idem:
  "b \<longrightarrow> list_all percentScale (gates r) \<Longrightarrow>
   processReport (processReport r b) b = processReport r b"
proof -
  assume h: "b \<longrightarrow> list_all percentScale (gates r)"
  have g: "map (processGate b \<circ> processGate b) (gates r) = map (processGate b) (gates r)"
    using h by (auto simp: list_all_iff processGate_idem)
  have s: "map_option processSummary (map_option processSummary (summary r)) =
           map_option processSummary (summary r)"
    by (cases "summary r") (simp_all add: processSummary_idem)
  show ?thesis by (simp add: processReport_def g s toOneDecimal_idem)
qed

lemma canonical_MOCK: "canonical (MOCK_ANALYSIS_RESULT t)"
  by (simp add: canonical_def MOCK_ANALYSIS_RESULT_def canonicalGate_def canonicalSummary_def
      canonicalScore_def inRange_def oneDecimal_def unitVal_def optVal_def
      mockGate0_def mockGate1_def mockGate2_def mockGate3_def mockGate4_def)

text \<open>
  C4 (as stated): applying \<open>processReport\<close> twice equals applying it once. On the remote
  path a gate-3 value of 150 becomes 1.5 after one pass and 0.015 after two.
\<close>

theorem processReport_twice_counterexample:
  "currentVal (gates (processReport (sampleRaw 91 150 44) True) ! 0) = Some (3 / 2) \<and>
   currentVal (gates (processReport (processReport (sampleRaw 91 150 44) True) True) ! 0) =
     Some (3 / 200) \<and>
   processReport (processReport (sampleRaw 91 150 44) True) True \<noteq>
     processReport (sampleRaw 91 150 44) True"
proof -
  have a: "currentVal (gates (processReport (sampleRaw 91 150 44) True) ! 0) = Some (3 / 2)"
    by (simp add: sampleRaw_def sampleGate3_def currentVal_def optVal_def processReport_def
      processGate_def withVal_def)
  have b: "currentVal (gates (processReport (processReport (sampleRaw 91 150 44) True) True) ! 0) =
     Some (3 / 200)"
    by (simp add: sampleRaw_def sampleGate3_def currentVal_def optVal_def processReport_def
      processGate_def withVal_def)
  from a b have "processReport (processReport (sampleRaw 91 150 44) True) True \<noteq>
     processReport (sampleRaw 91 150 44) True" by auto
  with a b show ?thesis by simp
qed

text \<open>
  C4 (amended): \<open>processReport\<close> returns a canonical report unchanged, on either path. On
  the backend path two passes equal one for every report; on the remote path two passes
  equal one for every report whose gate-3 \<open>current.val\<close> is at most 100.
\<close>

theorem processReport_idempotent_on_canonical:
  "(canonical r \<longrightarrow> processReport r b = r) \<and>
   processReport (processReport r False) False = processReport r False \<and>
   (list_all percentScale (gates r) \<longrightarrow>
      processReport (processReport r True) True = processReport r True)"
  using processReport_fixed [of r b] processReport_idem [of False r] processReport_idem [of True r]
  by simp

theorem processReport_idempotent_on_canonical_witness:
  "canonical (MOCK_ANALYSIS_RESULT ''2024-01-01T00:00:00.000Z'') \<and>
   processReport (MOCK_ANALYSIS_RESULT ''2024-01-01T00:00:00.000Z'') True =
     MOCK_ANALYSIS_RESULT ''2024-01-01T00:00:00.000Z'' \<and>
   list_all percentScale (gates (sampleRaw 91 82 44)) \<and>
   processReport (processReport (sampleRaw 91 82 44) True) True =
     processReport (sampleRaw 91 82 44) True"
  using processReport_idempotent_on_canonical
          [of "MOCK_ANALYSIS_RESULT ''2024-01-01T00:00:00.000Z''" True]
        processReport_idempotent_on_canonical [of "sampleRaw 91 82 44" True]
        canonical_MOCK [of "''2024-01-01T00:00:00.000Z''"]
  by (simp add: percentScale_def sampleRaw_def sampleGate3_def optVal_def)

section \<open>Properties of the resilient remote caller\<close>

declare callGptWithRetry.simps [simp del]

lemma getClient_in_range:
  "currentKeyIndex st < length keys \<Longrightarrow> getClient keys st = Inr (keys ! currentKeyIndex st)"
  by (simp add: getClient_def)

lemma callGptWithRetry_no_client:
  "length keys \<le> currentKeyIndex st \<Longrightarrow>
   callGptWithRetry keys create m rc st = (Inl OpenAIError, st)"
  by (subst callGptWithRetry.simps) (simp add: attempt_def getClient_def recoverable_def)

lemma callGptWithRetry_success:
  "getClient keys st = Inr key \<Longrightarrow> create key m (length (callLog st)) = Inr resp \<Longrightarrow>
   callGptWithRetry keys create m rc st = (Inr resp, st\<lparr>callLog := callLog st @ [key]\<rparr>)"
  by (subst callGptWithRetry.simps) (simp add: attempt_def)

lemma callGptWithRetry_retry:
  "getClient keys st = Inr key \<Longrightarrow> create key m (length (callLog st)) = Inl err \<Longrightarrow>
   recoverable err \<Longrightarrow> rc < length keys \<Longrightarrow>
   callGptWithRetry keys create m rc st =
     callGptWithRetry keys create m (rc + 1)
       (st\<lparr>callLog := callLog st @ [key],
           currentKeyIndex := (currentKeyIndex st + 1) mod length keys\<rparr>)"
  by (subst callGptWithRetry.simps) (simp add: attempt_def)

lemma callGptWithRetry_throw:
  "getClient keys st = Inr key \<Longrightarrow> create key m (length (callLog st)) = Inl err \<Longrightarrow>
   \<not> (recoverable err \<and> rc < length keys) \<Longrightarrow>
   callGptWithRetry keys create m rc st = (Inl err, st\<lparr>callLog := callLog st @ [key]\<rparr>)"
  by (subst callGptWithRetry.simps) (auto simp: attempt_def)

text \<open>
  C5: with a pool of three credentials and the index at 0, when the attempts with the first
  two credentials fail with a recoverable status and the attempt with the third succeeds,
  \<open>callGptWithRetry\<close> returns the third attempt's response, exactly those three requests
  were made, and \<open>currentKeyIndex\<close> is 2 afterwards. Every retry continues from the index
  \<open>(currentKeyIndex + 1) mod API_KEYS.length\<close>.
\<close>

theorem callGptWithRetry_rotates_to_third:
  assumes len: "length keys = 3" and idx: "currentKeyIndex st = 0"
    and f0: "create (keys ! 0) m (length (callLog st)) = Inl e0" and r0: "recoverable e0"
    and f1: "create (keys ! 1) m (length (callLog st) + 1) = Inl e1" and r1: "recoverable e1"
    and ok: "create (keys ! 2) m (length (callLog st) + 2) = Inr resp"
  shows "callGptWithRetry keys create m 0 st =
           (Inr resp, st\<lparr>callLog := callLog st @ [keys ! 0, keys ! 1, keys ! 2],
                          currentKeyIndex := 2\<rparr>) \<and>
         currentKeyIndex (snd (callGptWithRetry keys create m 0 st)) = 2 \<and>
         (\<forall>rc s err. currentKeyIndex s < length keys \<and>
            create (keys ! currentKeyIndex s) m (length (callLog s)) = Inl err \<and>
            recoverable err \<and> rc < length keys \<longrightarrow>
            callGptWithRetry keys create m rc s =
              callGptWithRetry keys create m (rc + 1)
                (s\<lparr>callLog := callLog s @ [keys ! currentKeyIndex s],
                   currentKeyIndex := (currentKeyIndex s + 1) mod length keys\<rparr>))"
proof -
  let ?s1 = "st\<lparr>callLog := callLog st @ [keys ! 0],
                currentKeyIndex := (currentKeyIndex st + 1) mod length keys\<rparr>"
  let ?s2 = "?s1\<lparr>callLog := callLog ?s1 @ [keys ! 1],
                currentKeyIndex := (currentKeyIndex ?s1 + 1) mod length keys\<rparr>"
  have c0: "getClient keys st = Inr (keys ! 0)" using len idx by (simp add: getClient_def)
  have c1: "getClient keys ?s1 = Inr (keys ! 1)" using len idx by (simp add: getClient_def)
  have c2: "getClient keys ?s2 = Inr (keys ! 2)"
    using len idx by (simp add: getClient_def numeral_2_eq_2)
  have "callGptWithRetry keys create m 0 st = callGptWithRetry keys create m (Suc 0) ?s1"
    using callGptWithRetry_retry [of keys st "keys ! 0" create m e0 0] f0 r0 len c0 by simp
  also have "\<dots> = callGptWithRetry keys create m (Suc (Suc 0)) ?s2"
    using callGptWithRetry_retry [of keys ?s1 "keys ! 1" create m e1 "Suc 0"] f1 r1 len c1
    by simp
  also have "\<dots> = (Inr resp, ?s2\<lparr>callLog := callLog ?s2 @ [keys ! 2]\<rparr>)"
    using callGptWithRetry_success [of keys ?s2 "keys ! 2" create m resp "Suc (Suc 0)"] ok c2
    by simp
  finally have main: "callGptWithRetry keys create m 0 st =
           (Inr resp, st\<lparr>callLog := callLog st @ [keys ! 0, keys ! 1, keys ! 2],
                          currentKeyIndex := 2\<rparr>)"
    using len idx by simp
  have step: "callGptWithRetry keys create m rc s =
              callGptWithRetry keys create m (rc + 1)
                (s\<lparr>callLog := callLog s @ [keys ! currentKeyIndex s],
                   currentKeyIndex := (currentKeyIndex s + 1) mod length keys\<rparr>)"
    if "currentKeyIndex s < length keys"
      "create (keys ! currentKeyIndex s) m (length (callLog s)) = Inl err"
      "recoverable err" "rc < length keys" for rc s err
    using callGptWithRetry_retry [of keys s "keys ! currentKeyIndex s" create m err rc]
      getClient_in_range [of s keys] that by simp
  show ?thesis using main step by simp
qed

theorem callGptWithRetry_rotates_to_third_witness:
  "length [''key-1'', ''key-2'', ''key-3''] = 3 \<and> currentKeyIndex pool0 = 0 \<and>
   recoverable rateLimited \<and>
   onlyThirdKeyWorks ''key-1'' (''ref'', ''user'') 0 = Inl rateLimited \<and>
   onlyThirdKeyWorks ''key-2'' (''ref'', ''user'') 1 = Inl rateLimited \<and>
   onlyThirdKeyWorks ''key-3'' (''ref'', ''user'') 2 = Inr (sampleCompletion sampleJson) \<and>
   callGptWithRetry [''key-1'', ''key-2'', ''key-3''] onlyThirdKeyWorks (''ref'', ''user'') 0 pool0 =
     (Inr (sampleCompletion sampleJson),
      \<lparr>currentKeyIndex = 2, callLog = [''key-1'', ''key-2'', ''key-3'']\<rparr>)"
  using callGptWithRetry_rotates_to_third
    [of "[''key-1'', ''key-2'', ''key-3'']" pool0 onlyThirdKeyWorks "(''ref'', ''user'')"
        rateLimited rateLimited "sampleCompletion sampleJson"]
  by (simp add: pool0_def onlyThirdKeyWorks_def rateLimited_def recoverable_def)

text \<open>
  When every request fails with a recoverable status, a call entered with \<open>retryCount\<close>
  retries behind it and the index inside the pool makes \<open>API_KEYS.length - retryCount + 1\<close>
  requests and then raises: from \<open>retryCount = 0\<close>, one request more than there are
  credentials.
\<close>

lemma callGptWithRetry_all_fail:
  assumes fails: "\<forall>key n. \<exists>err. create key m n = Inl err \<and> recoverable err"
  shows "rc \<le> length keys \<Longrightarrow> currentKeyIndex st < length keys \<Longrightarrow>
         length (callLog (snd (callGptWithRetry keys create m rc st))) =
           length (callLog st) + (length keys - rc) + 1 \<and>
         isl (fst (callGptWithRetry keys create m rc st))"
  using fails
proof (induction keys create m rc st rule: callGptWithRetry.induct)
  case (1 keys create m rc st)
  let ?key = "keys ! currentKeyIndex st"
  have c: "getClient keys st = Inr ?key" using "1.prems" by (simp add: getClient_def)
  from "1.prems" obtain err where f: "create ?key m (length (callLog st)) = Inl err"
    and r: "recoverable err" by blast
  show ?case
  proof (cases "rc < length keys")
    case True
    let ?s1 = "st\<lparr>callLog := callLog st @ [?key]\<rparr>"
    let ?s2 = "?s1\<lparr>currentKeyIndex := (currentKeyIndex ?s1 + 1) mod length keys\<rparr>"
    have a: "attempt keys create m st = (Inl err, ?s1)" using c f by (simp add: attempt_def)
    have ih: "length (callLog (snd (callGptWithRetry keys create m (rc + 1) ?s2))) =
           length (callLog ?s2) + (length keys - (rc + 1)) + 1 \<and>
         isl (fst (callGptWithRetry keys create m (rc + 1) ?s2))"
    proof -
      have "0 < length keys" using True by (cases keys) simp_all
      then have "(currentKeyIndex ?s1 + 1) mod length keys < length keys" by simp
      then show ?thesis using "1.IH" [OF a [symmetric] refl] r True "1.prems" by simp
    qed
    have step: "callGptWithRetry keys create m rc st = callGptWithRetry keys create m (rc + 1) ?s2"
      using callGptWithRetry_retry [of keys st ?key create m err rc] c f r True by simp
    show ?thesis using ih True by (simp add: step)
  next
    case False
    then show ?thesis
      using callGptWithRetry_throw [of keys st ?key create m err rc] c f "1.prems" by simp
  qed
qed

text \<open>
  C2 (as stated): with two credentials that both fail with status 429 the caller stops
  after two attempts. The guard \<open>retryCount < API_KEYS.length\<close> admits two retries after
  the first attempt: three requests are made, the third with the first credential again.
\<close>

theorem callGptWithRetry_third_attempt_counterexample:
  "callGptWithRetry [''key-1'', ''key-2''] alwaysRateLimited (''ref'', ''user'') 0 pool0 =
     (Inl rateLimited,
      \<lparr>currentKeyIndex = 0, callLog = [''key-1'', ''key-2'', ''key-1'']\<rparr>) \<and>
   length (callLog (snd (callGptWithRetry [''key-1'', ''key-2''] alwaysRateLimited
      (''ref'', ''user'') 0 pool0))) \<noteq> 2"
proof -
  let ?keys = "[''key-1'', ''key-2'']"
  let ?s1 = "\<lparr>currentKeyIndex = Suc 0, callLog = [''key-1'']\<rparr>"
  let ?s2 = "\<lparr>currentKeyIndex = 0, callLog = [''key-1'', ''key-2'']\<rparr>"
  have r: "recoverable rateLimited" by (simp add: recoverable_def rateLimited_def)
  have "callGptWithRetry ?keys alwaysRateLimited (''ref'', ''user'') 0 pool0 =
        callGptWithRetry ?keys alwaysRateLimited (''ref'', ''user'') (Suc 0) ?s1"
    using callGptWithRetry_retry
      [of ?keys pool0 "''key-1''" alwaysRateLimited "(''ref'', ''user'')" rateLimited 0] r
    by (simp add: alwaysRateLimited_def pool0_def getClient_def)
  also have "\<dots> = callGptWithRetry ?keys alwaysRateLimited (''ref'', ''user'') (Suc (Suc 0)) ?s2"
    using callGptWithRetry_retry
      [of ?keys ?s1 "''key-2''" alwaysRateLimited "(''ref'', ''user'')" rateLimited "Suc 0"] r
    by (simp add: alwaysRateLimited_def getClient_def)
  also have "\<dots> = (Inl rateLimited,
      \<lparr>currentKeyIndex = 0, callLog = [''key-1'', ''key-2'', ''key-1'']\<rparr>)"
    using callGptWithRetry_throw
      [of ?keys ?s2 "''key-1''" alwaysRateLimited "(''ref'', ''user'')" rateLimited "Suc (Suc 0)"]
    by (simp add: alwaysRateLimited_def getClient_def)
  finally show ?thesis by simp
qed

text \<open>
  C2 (amended): with a pool of exactly two credentials, every attempt failing with a
  recoverable status, \<open>callGptWithRetry\<close> makes exactly three attempts (the first one and
  two retries, the retry budget being the pool size), the third with the credential of the
  first, and then raises the error of the third attempt; no fourth call is made.
\<close>

theorem callGptWithRetry_two_keys_three_attempts:
  assumes len: "length keys = 2" and idx: "currentKeyIndex st < 2"
    and fails: "\<forall>key n. \<exists>err. create key m n = Inl err \<and> recoverable err"
  shows "\<exists>err. recoverable err \<and>
           create (keys ! currentKeyIndex st) m (length (callLog st) + 2) = Inl err \<and>
           callGptWithRetry keys create m 0 st =
             (Inl err,
              st\<lparr>callLog := callLog st @
                   [keys ! currentKeyIndex st,
                    keys ! ((currentKeyIndex st + 1) mod 2),
                    keys ! currentKeyIndex st]\<rparr>) \<and>
           length (callLog (snd (callGptWithRetry keys create m 0 st))) = length (callLog st) + 3"
proof -
  let ?i = "currentKeyIndex st"
  let ?k0 = "keys ! ?i"
  let ?k1 = "keys ! ((?i + 1) mod 2)"
  let ?s1 = "st\<lparr>callLog := callLog st @ [?k0],
                currentKeyIndex := (currentKeyIndex st + 1) mod length keys\<rparr>"
  let ?s2 = "?s1\<lparr>callLog := callLog ?s1 @ [?k1],
                currentKeyIndex := (currentKeyIndex ?s1 + 1) mod length keys\<rparr>"
  have wrap2: "(Suc ((Suc ?i) mod 2)) mod 2 = ?i" using idx by presburger
  have c0: "getClient keys st = Inr ?k0" using len idx by (simp add: getClient_def)
  have c1: "getClient keys ?s1 = Inr ?k1" using len by (simp add: getClient_def)
  have c2: "getClient keys ?s2 = Inr ?k0" using len idx wrap2 by (simp add: getClient_def)
  from fails obtain e0 where f0: "create ?k0 m (length (callLog st)) = Inl e0"
    and r0: "recoverable e0" by blast
  from fails obtain e1 where f1: "create ?k1 m (length (callLog ?s1)) = Inl e1"
    and r1: "recoverable e1" by blast
  from fails obtain e2 where f2: "create ?k0 m (length (callLog ?s2)) = Inl e2"
    and r2: "recoverable e2" by blast
  have "callGptWithRetry keys create m 0 st = callGptWithRetry keys create m (Suc 0) ?s1"
    using callGptWithRetry_retry [of keys st ?k0 create m e0 0] c0 f0 r0 len by simp
  also have "\<dots> = callGptWithRetry keys create m (Suc (Suc 0)) ?s2"
    using callGptWithRetry_retry [of keys ?s1 ?k1 create m e1 "Suc 0"] c1 f1 r1 len by simp
  also have "\<dots> = (Inl e2, ?s2\<lparr>callLog := callLog ?s2 @ [?k0]\<rparr>)"
    using callGptWithRetry_throw [of keys ?s2 ?k0 create m e2 "Suc (Suc 0)"] c2 f2 len by simp
  finally have main: "callGptWithRetry keys create m 0 st =
             (Inl e2, st\<lparr>callLog := callLog st @ [?k0, ?k1, ?k0]\<rparr>)"
    using len wrap2 by simp
  have "create ?k0 m (length (callLog st) + 2) = Inl e2"
    using f2 by simp
  with main r2 show ?thesis by auto
qed

theorem callGptWithRetry_two_keys_three_attempts_witness:
  "length [''key-1'', ''key-2''] = 2 \<and> currentKeyIndex pool0 < 2 \<and>
   (\<forall>key n. \<exists>err. alwaysRateLimited key (''ref'', ''user'') n = Inl err \<and> recoverable err) \<and>
   (\<exists>err. callGptWithRetry [''key-1'', ''key-2''] alwaysRateLimited (''ref'', ''user'') 0 pool0 =
     (Inl err, pool0\<lparr>callLog := [''key-1'', ''key-2'', ''key-1'']\<rparr>))"
  using callGptWithRetry_two_keys_three_attempts
    [of "[''key-1'', ''key-2'']" pool0 alwaysRateLimited "(''ref'', ''user'')"]
  by (auto simp: pool0_def alwaysRateLimited_def rateLimited_def recoverable_def)

section \<open>Properties of the credential pool\<close>

text \<open>
  C8 (as stated): building the pool from zero usable credentials fails with an empty-pool
  error. \<open>API_KEYS\<close> is then just the empty list: the pool exists, and
  \<open>callGptWithRetry\<close> is entered with it. The error that comes out is the one of the
  client's constructor inside the call.
\<close>

theorem empty_pool_counterexample:
  "API_KEYS None (Some '''') None = [] \<and>
   callGptWithRetry (API_KEYS None (Some '''') None) (answers sampleJson) (''ref'', ''user'') 0
     pool0 = (Inl OpenAIError, pool0)"
proof -
  have k: "API_KEYS None (Some '''') None = []" by (simp add: API_KEYS_def orEmpty_def)
  show ?thesis
    using callGptWithRetry_no_client [of "[]" pool0 "answers sampleJson" "(''ref'', ''user'')" 0]
    by (simp add: k)
qed

text \<open>
  C8 (amended): building the pool from zero usable credentials does not fail: it yields
  the empty pool. A remote call entered with the empty pool sends no request: building the
  client fails, that error has no status and is raised at once, without a retry and
  without moving the index.
\<close>

theorem empty_pool_no_request:
  "(orEmpty token1 = '''' \<and> orEmpty token2 = '''' \<and> orEmpty token3 = '''' \<longrightarrow>
      API_KEYS token1 token2 token3 = []) \<and>
   callGptWithRetry [] create m rc st = (Inl OpenAIError, st) \<and>
   callLog (snd (callGptWithRetry [] create m rc st)) = callLog st \<and>
   \<not> recoverable OpenAIError"
  using callGptWithRetry_no_client [of "[]" st create m rc]
  by (simp add: API_KEYS_def recoverable_def)

theorem empty_pool_no_request_witness:
  "orEmpty None = '''' \<and> orEmpty (Some '''') = '''' \<and> API_KEYS None (Some '''') None = [] \<and>
   callGptWithRetry (API_KEYS None (Some '''') None) (answers sampleJson) (''ref'', ''user'') 0
     pool0 = (Inl OpenAIError, pool0)"
  using empty_pool_no_request
    [of None "Some ''''" None "answers sampleJson" "(''ref'', ''user'')" 0 pool0]
  by (simp add: orEmpty_def)

section \<open>Properties of the history\<close>

lemma saveToHistory_eq:
  "saveToHistory accepts item st =
     (let h = (if 20 \<le> length (history st) then tl (history st) else history st) @ [item]
      in if accepts h then (Inr (), st\<lparr>history := h, localStorage := Some h\<rparr>)
         else (Inl QuotaExceededError, st\<lparr>history := h\<rparr>))"
  by (cases "history st") (simp_all add: saveToHistory_def Let_def)

text \<open>
  C6: appending to a history of exactly 20 entries gives the old entries without the first,
  in their order, followed by the new entry: 20 entries, the new one last. Appending to a
  history of fewer than 20 entries removes nothing. This is the history of the state
  whether or not \<open>localStorage\<close> takes the list; when it does, the same list is stored, and
  when it does not, the stored value stays and the \<open>QuotaExceededError\<close> is raised.
\<close>

theorem saveToHistory_evicts_oldest:
  "(length (history st) = 20 \<longrightarrow>
      history (snd (saveToHistory accepts item st)) = tl (history st) @ [item] \<and>
      length (history (snd (saveToHistory accepts item st))) = 20 \<and>
      last (history (snd (saveToHistory accepts item st))) = item) \<and>
   (length (history st) < 20 \<longrightarrow>
      history (snd (saveToHistory accepts item st)) = history st @ [item]) \<and>
   (accepts (history (snd (saveToHistory accepts item st))) \<longrightarrow>
      fst (saveToHistory accepts item st) = Inr () \<and>
      localStorage (snd (saveToHistory accepts item st)) =
        Some (history (snd (saveToHistory accepts item st)))) \<and>
   (\<not> accepts (history (snd (saveToHistory accepts item st))) \<longrightarrow>
      fst (saveToHistory accepts item st) = Inl QuotaExceededError \<and>
      localStorage (snd (saveToHistory accepts item st)) = localStorage st)"
  by (simp add: saveToHistory_eq Let_def)

theorem saveToHistory_evicts_oldest_witness:
  "length (history (sampleState fullHistory)) = 20 \<and>
   hd (history (sampleState fullHistory)) = sampleItem ''oldest'' \<and>
   history (snd (saveToHistory roomy (sampleItem ''new'') (sampleState fullHistory))) =
     replicate 19 (sampleItem ''later'') @ [sampleItem ''new''] \<and>
   roomy (replicate 19 (sampleItem ''later'') @ [sampleItem ''new'']) \<and>
   localStorage (snd (saveToHistory roomy (sampleItem ''new'') (sampleState fullHistory))) =
     Some (replicate 19 (sampleItem ''later'') @ [sampleItem ''new'']) \<and>
   length (history (sampleState [])) < 20 \<and>
   history (snd (saveToHistory full (sampleItem ''new'') (sampleState []))) = [sampleItem ''new''] \<and>
   \<not> full [sampleItem ''new''] \<and>
   fst (saveToHistory full (sampleItem ''new'') (sampleState [])) = Inl QuotaExceededError"
  using saveToHistory_evicts_oldest [of "sampleState fullHistory" roomy "sampleItem ''new''"]
    saveToHistory_evicts_oldest [of "sampleState []" full "sampleItem ''new''"]
  by (simp add: sampleState_def fullHistory_def roomy_def full_def)

section \<open>Properties of the fence stripping\<close>

lemma replaceAll_prefix:
  "pat \<noteq> [] \<Longrightarrow> replaceAll pat rep (pat @ s) = rep @ replaceAll pat rep s"
proof -
  assume ne: "pat \<noteq> []"
  then obtain c cs where e: "pat @ s = c # cs" by (cases pat) auto
  have p: "prefix pat (c # cs)" using e by (metis prefixI)
  have "replaceAll pat rep (c # cs) = rep @ replaceAll pat rep (drop (length pat) (c # cs))"
    using ne p by simp
  then show ?thesis unfolding e [symmetric] by simp
qed

lemma replaceAll_skip:
  "pat \<noteq> [] \<Longrightarrow> hd pat \<notin> set ws \<Longrightarrow> replaceAll pat rep (ws @ s) = ws @ replaceAll pat rep s"
proof (induction ws)
  case Nil
  then show ?case by simp
next
  case (Cons c ws)
  then have "\<not> prefix pat (c # ws @ s)" by (cases pat) auto
  with Cons show ?case by simp
qed

lemma replaceAll_append:
  "(\<And>s'. suffix s' s \<Longrightarrow> s' \<noteq> [] \<Longrightarrow> prefix pat (s' @ t) \<Longrightarrow> prefix pat s') \<Longrightarrow>
   replaceAll pat rep (s @ t) = replaceAll pat rep s @ replaceAll pat rep t"
proof (induction pat rep s rule: replaceAll.induct)
  case (1 pat rep)
  then show ?case by simp
next
  case (2 pat rep c cs)
  show ?case
  proof (cases "pat \<noteq> [] \<and> prefix pat (c # cs)")
    case True
    then have p: "prefix pat ((c # cs) @ t)" using prefix_prefix [of pat "c # cs" t] by simp
    from True have len: "length pat \<le> length (c # cs)" by (auto dest: prefix_length_le)
    have suf: "suffix (drop (length pat) (c # cs)) (c # cs)" by (rule suffix_drop)
    have ih: "replaceAll pat rep (drop (length pat) (c # cs) @ t) =
          replaceAll pat rep (drop (length pat) (c # cs)) @ replaceAll pat rep t"
    proof (rule "2.IH"(1) [OF True])
      fix s' assume "suffix s' (drop (length pat) (c # cs))" "s' \<noteq> []" "prefix pat (s' @ t)"
      then show "prefix pat s'" using "2.prems" suf suffix_order.trans by blast
    qed
    have "replaceAll pat rep ((c # cs) @ t) =
          rep @ replaceAll pat rep (drop (length pat) ((c # cs) @ t))"
      using True p by simp
    also have "drop (length pat) ((c # cs) @ t) = drop (length pat) (c # cs) @ t"
      unfolding drop_append using len by simp
    finally show ?thesis using True ih by simp
  next
    case False
    have np: "\<not> (pat \<noteq> [] \<and> prefix pat ((c # cs) @ t))"
      using False "2.prems" [of "c # cs"] by auto
    have ih: "replaceAll pat rep (cs @ t) = replaceAll pat rep cs @ replaceAll pat rep t"
    proof (rule "2.IH"(2) [OF False])
      fix s' assume "suffix s' cs" "s' \<noteq> []" "prefix pat (s' @ t)"
      then show "prefix pat s'" using "2.prems" [of s'] by (simp add: suffix_Cons)
    qed
    have l: "replaceAll pat rep (c # cs) = c # replaceAll pat rep cs"
      using False by auto
    have r: "replaceAll pat rep (c # (cs @ t)) = c # replaceAll pat rep (cs @ t)"
      using np by auto
    show ?thesis by (simp only: append_Cons l r ih)
  qed
qed

lemma prefix_straddle:
  "prefix pat (s @ t) \<Longrightarrow> \<not> prefix pat s \<Longrightarrow> \<exists>us. us \<noteq> [] \<and> pat = s @ us \<and> prefix us t"
  by (auto simp: prefix_append)

lemma not_whitespace_fence: "\<not> isWhitespace (CHR 0x60)" "\<not> isWhitespace (CHR ''n'')"
  by (simp_all add: isWhitespace_def)

lemma nomatch_json:
  assumes ws: "\<forall>c \<in> set sep2. isWhitespace c"
    and ne: "s \<noteq> []" and p: "prefix ''```json'' (s @ sep2 @ ''```'')"
  shows "prefix ''```json'' s"
proof (rule ccontr)
  assume "\<not> prefix ''```json'' s"
  with p obtain us where us: "us \<noteq> []" "''```json'' = s @ us" "prefix us (sep2 @ ''```'')"
    using prefix_straddle by blast
  from us(1,2) have "last us = CHR ''n''" by (metis last_appendR last.simps list.distinct(1))
  moreover have "last us \<in> set (sep2 @ ''```'')"
    using us(1,3) by (meson last_in_set set_mono_prefix subsetD)
  ultimately have "CHR ''n'' \<in> set sep2" by auto
  with ws show False using not_whitespace_fence by blast
qed

lemma nomatch_fence:
  assumes ws: "\<forall>c \<in> set sep2. isWhitespace c" and sep: "sep2 \<noteq> []"
    and ne: "s \<noteq> []" and p: "prefix ''```'' (s @ sep2 @ ''```'')"
  shows "prefix ''```'' s"
proof (rule ccontr)
  assume "\<not> prefix ''```'' s"
  with p obtain us where us: "us \<noteq> []" "''```'' = s @ us" "prefix us (sep2 @ ''```'')"
    using prefix_straddle by blast
  from us(1,3) sep have "hd us = hd sep2" by (cases us; cases sep2) auto
  moreover have "set us \<subseteq> set ''```''" using us(2) by (metis set_append sup_ge2)
  ultimately have "hd sep2 = CHR 0x60" using us(1) hd_in_set [of us] by auto
  with ws sep show False using not_whitespace_fence by (metis hd_in_set)
qed

lemma replaceAll_match:
  "pat \<noteq> [] \<Longrightarrow> prefix pat s \<Longrightarrow>
   replaceAll pat rep s = rep @ replaceAll pat rep (drop (length pat) s)"
  by (cases s) simp_all

lemma replaceAll_nomatch:
  "s \<noteq> [] \<Longrightarrow> \<not> prefix pat s \<Longrightarrow> replaceAll pat rep s = hd s # replaceAll pat rep (tl s)"
  by (cases s) simp_all

lemma replaceAll_fence_end: "replaceAll ''```'' [] (x @ ''```'') = replaceAll ''```'' [] x"
proof (induction x rule: length_induct)
  case (1 x)
  show ?case
  proof (cases "x = []")
    case True
    then show ?thesis by simp
  next
    case ne: False
    show ?thesis
    proof (cases "prefix ''```'' x")
      case True
      then have len: "3 \<le> length x" by (auto dest: prefix_length_le)
      have a: "replaceAll ''```'' [] x = replaceAll ''```'' [] (drop 3 x)"
        using replaceAll_match [of "''```''" x "[]"] True by (simp add: numeral_3_eq_3)
      have "prefix ''```'' (x @ ''```'')" using True prefix_prefix by blast
      then have "replaceAll ''```'' [] (x @ ''```'') =
          replaceAll ''```'' [] (drop 3 (x @ ''```''))"
        using replaceAll_match [of "''```''" "x @ ''```''" "[]"] by (simp add: numeral_3_eq_3)
      also have "drop 3 (x @ ''```'') = drop 3 x @ ''```''"
        unfolding drop_append using len by simp
      finally have b: "replaceAll ''```'' [] (x @ ''```'') =
          replaceAll ''```'' [] (drop 3 x @ ''```'')" .
      have "length (drop 3 x) < length x" using ne by simp
      with "1.IH" a b show ?thesis by simp
    next
      case False
      show ?thesis
      proof (cases "prefix ''```'' (x @ ''```'')")
        case True
        with False obtain us where us: "us \<noteq> []" "''```'' = x @ us"
          using prefix_straddle by blast
        then have "x = [CHR 0x60] \<or> x = [CHR 0x60, CHR 0x60]"
          using ne by (cases x; cases "tl x"; cases "tl (tl x)") (auto simp: Cons_eq_append_conv)
        then show ?thesis by auto
      next
        case np: False
        have a: "replaceAll ''```'' [] x = hd x # replaceAll ''```'' [] (tl x)"
          using replaceAll_nomatch [OF ne False] .
        have "replaceAll ''```'' [] (x @ ''```'') =
            hd (x @ ''```'') # replaceAll ''```'' [] (tl (x @ ''```''))"
          using replaceAll_nomatch [OF _ np] ne by simp
        then have b: "replaceAll ''```'' [] (x @ ''```'') =
            hd x # replaceAll ''```'' [] (tl x @ ''```'')"
          using ne by simp
        have "length (tl x) < length x" using ne by simp
        with "1.IH" a b show ?thesis by simp
      qed
    qed
  qed
qed

lemma trim_whitespace_around:
  assumes a: "\<forall>c \<in> set a. isWhitespace c" and b: "\<forall>c \<in> set b. isWhitespace c"
  shows "trim (a @ x @ b) = trim x"
proof -
  have l: "dropWhile isWhitespace (a @ x @ b) = dropWhile isWhitespace (x @ b)"
    using a by (simp add: dropWhile_append2)
  show ?thesis
  proof (cases "\<forall>c \<in> set x. isWhitespace c")
    case True
    then have "dropWhile isWhitespace (x @ b) = []" "dropWhile isWhitespace x = []"
      using b by auto
    then show ?thesis by (simp only: trim_def l)
  next
    case False
    then obtain c where "c \<in> set x" "\<not> isWhitespace c" by blast
    then have f1: "dropWhile isWhitespace (x @ b) = dropWhile isWhitespace x @ b"
      by (rule dropWhile_append1)
    have f2: "dropWhile isWhitespace (rev b @ z) = dropWhile isWhitespace z" for z
      by (rule dropWhile_append2) (use b in auto)
    show ?thesis by (simp only: trim_def l f1 rev_append f2)
  qed
qed

lemma cleanJson_fenced:
  assumes ws1: "\<forall>c \<in> set sep1. isWhitespace c" and ws2: "\<forall>c \<in> set sep2. isWhitespace c"
  shows "cleanJson (fenced sep1 doc sep2) = cleanJson doc"
proof -
  let ?J = "replaceAll ''```json'' ''''"
  let ?F = "replaceAll ''```'' ''''"
  have tick1: "CHR 0x60 \<notin> set sep1" using ws1 not_whitespace_fence by blast
  have tick2: "CHR 0x60 \<notin> set sep2" using ws2 not_whitespace_fence by blast
  have "?J (fenced sep1 doc sep2) = ?J (sep1 @ doc @ sep2 @ ''```'')"
    unfolding fenced_def using replaceAll_prefix [of "''```json''" "''''"] by simp
  also have "\<dots> = sep1 @ ?J (doc @ sep2 @ ''```'')"
    using tick1 by (simp add: replaceAll_skip)
  also have "?J (doc @ sep2 @ ''```'') = ?J doc @ ?J (sep2 @ ''```'')"
    by (rule replaceAll_append) (rule nomatch_json [OF ws2])
  also have "?J (sep2 @ ''```'') = sep2 @ ''```''"
    using tick2 by (simp add: replaceAll_skip)
  finally have j: "?J (fenced sep1 doc sep2) = sep1 @ ?J doc @ sep2 @ ''```''" .
  have f: "?F (?J doc @ sep2 @ ''```'') = ?F (?J doc) @ sep2"
  proof (cases "sep2 = []")
    case True
    then show ?thesis by (simp add: replaceAll_fence_end)
  next
    case False
    have "?F (?J doc @ sep2 @ ''```'') = ?F (?J doc) @ ?F (sep2 @ ''```'')"
      by (rule replaceAll_append) (rule nomatch_fence [OF ws2 False])
    also have "?F (sep2 @ ''```'') = sep2 @ ?F ''```''"
      using tick2 by (simp add: replaceAll_skip)
    finally show ?thesis by simp
  qed
  have "?F (?J (fenced sep1 doc sep2)) = sep1 @ ?F (?J doc @ sep2 @ ''```'')"
    using tick1 by (simp add: j replaceAll_skip)
  then have "?F (?J (fenced sep1 doc sep2)) = sep1 @ ?F (?J doc) @ sep2"
    by (simp only: f)
  then show ?thesis
    by (simp only: cleanJson_def trim_whitespace_around [OF ws1 ws2])
qed

lemma replaceAll_no_sublist: "\<not> sublist pat s \<Longrightarrow> replaceAll pat rep s = s"
proof (induction s)
  case Nil
  then show ?case by simp
next
  case (Cons c cs)
  from Cons.prems have "\<not> prefix pat (c # cs)" using prefix_imp_sublist by blast
  moreover from Cons.prems have "\<not> sublist pat cs" by (auto simp: sublist_Cons_right)
  ultimately show ?case using Cons.IH by simp
qed

lemma cleanJson_no_fence: "\<not> sublist ''```'' doc \<Longrightarrow> cleanJson doc = trim doc"
proof -
  assume h: "\<not> sublist ''```'' doc"
  have "sublist ''```'' ''```json''" by (rule prefix_imp_sublist) simp
  then have "\<not> sublist ''```json'' doc" using h sublist_order.order.trans by blast
  then show ?thesis using h by (simp add: cleanJson_def replaceAll_no_sublist)
qed

lemma trim_id:
  assumes "doc \<noteq> []" "\<not> isWhitespace (hd doc)" "\<not> isWhitespace (last doc)"
  shows "trim doc = doc"
proof -
  have a: "dropWhile isWhitespace doc = doc" using assms(1,2) by (cases doc) simp_all
  have "rev doc \<noteq> []" "\<not> isWhitespace (hd (rev doc))" using assms by (simp_all add: hd_rev)
  then have b: "dropWhile isWhitespace (rev doc) = rev doc" by (cases "rev doc") simp_all
  show ?thesis by (simp add: trim_def a b)
qed

lemma no_tick_no_fence: "CHR 0x60 \<notin> set doc \<Longrightarrow> \<not> sublist ''```'' doc"
  using set_mono_sublist by fastforce


section \<open>Properties of the analysis session\<close>






lemma runAnalysis_parse_failure:
  assumes "refFile st = Some rf" "userFile st = Some uf"
    and "dataURL rf = Some a" "dataURL uf = Some b"
    and "callGptWithRetry keys (chatCreate e) (a, b) 0 (pool st) = (Inr resp, p')"
    and "JSON_parse e (cleanJson (messageContent resp)) = None"
  shows "runAnalysis keys e st =
           catchError SyntaxError
             (st\<lparr>isAnalyzing := True, showResults := False, apiResult := None,
                 algoResult := None, isAnimDone := False, error := None, pool := p'\<rparr>)"
  using assms by (simp add: runAnalysis_def fileToBase64_def Let_def)

text \<open>
  The session whose remote response parses: the state in which \<open>saveToHistory\<close> is called,
  and what is made of its outcome.
\<close>

lemma runAnalysis_parsed:
  assumes "refFile st = Some rf" "userFile st = Some uf"
    and "dataURL rf = Some a" "dataURL uf = Some b"
    and "callGptWithRetry keys (chatCreate e) (a, b) 0 (pool st) = (Inr resp, p')"
    and "JSON_parse e (cleanJson (messageContent resp)) = Some parsed"
  shows "runAnalysis keys e st =
           (case saveToHistory (storageAccepts e)
              \<lparr>id_h = Date_now e, timestamp_h = Date_toISOString e, refImageBase64 = a,
               userImageBase64 = b, apiResult_h = processReport parsed True,
               algoResult_h =
                 processReport (fetchAlgorithmResult (moduleLoadTime e) (fetchAnalyze e) rf uf) False\<rparr>
              (st\<lparr>isAnalyzing := True, showResults := False, isAnimDone := False, error := None,
                  pool := p', apiResult := Some (processReport parsed True),
                  algoResult := Some (processReport
                    (fetchAlgorithmResult (moduleLoadTime e) (fetchAnalyze e) rf uf) False)\<rparr>) of
              (Inl err, st') \<Rightarrow> catchError err st'
            | (Inr u, st') \<Rightarrow> st')"
  using assms by (simp add: runAnalysis_def fileToBase64_def Let_def split: prod.splits sum.splits)

lemma runAnalysis_parsed_fields:
  assumes "refFile st = Some rf" "userFile st = Some uf"
    and "dataURL rf = Some a" "dataURL uf = Some b"
    and "callGptWithRetry keys (chatCreate e) (a, b) 0 (pool st) = (Inr resp, p')"
    and "JSON_parse e (cleanJson (messageContent resp)) = Some parsed"
    and H: "H = (if 20 \<le> length (history st) then tl (history st) else history st) @
           [\<lparr>id_h = Date_now e, timestamp_h = Date_toISOString e, refImageBase64 = a,
             userImageBase64 = b, apiResult_h = processReport parsed True,
             algoResult_h =
               processReport (fetchAlgorithmResult (moduleLoadTime e) (fetchAnalyze e) rf uf) False\<rparr>]"
  shows "apiResult (runAnalysis keys e st) = Some (processReport parsed True)"
    and "algoResult (runAnalysis keys e st) =
           Some (processReport (fetchAlgorithmResult (moduleLoadTime e) (fetchAnalyze e) rf uf) False)"
    and "history (runAnalysis keys e st) = H"
    and "storageAccepts e H \<Longrightarrow>
           error (runAnalysis keys e st) = None \<and> localStorage (runAnalysis keys e st) = Some H"
    and "\<not> storageAccepts e H \<Longrightarrow>
           error (runAnalysis keys e st) = Some QuotaExceededError \<and>
           localStorage (runAnalysis keys e st) = localStorage st"
proof -
  let ?algo = "processReport (fetchAlgorithmResult (moduleLoadTime e) (fetchAnalyze e) rf uf) False"
  let ?item = "\<lparr>id_h = Date_now e, timestamp_h = Date_toISOString e, refImageBase64 = a,
               userImageBase64 = b, apiResult_h = processReport parsed True,
               algoResult_h = ?algo\<rparr>"
  let ?mid = "st\<lparr>isAnalyzing := True, showResults := False, isAnimDone := False, error := None,
                  pool := p', apiResult := Some (processReport parsed True),
                  algoResult := Some ?algo\<rparr>"
  have sv: "saveToHistory (storageAccepts e) ?item ?mid =
      (if storageAccepts e H then (Inr (), ?mid\<lparr>history := H, localStorage := Some H\<rparr>)
       else (Inl QuotaExceededError, ?mid\<lparr>history := H\<rparr>))"
    unfolding H by (simp add: saveToHistory_eq Let_def)
  have run: "runAnalysis keys e st =
      (if storageAccepts e H then ?mid\<lparr>history := H, localStorage := Some H\<rparr>
       else catchError QuotaExceededError (?mid\<lparr>history := H\<rparr>))"
    unfolding runAnalysis_parsed [OF assms(1-6)] sv by simp
  show "apiResult (runAnalysis keys e st) = Some (processReport parsed True)"
    by (simp add: run catchError_def)
  show "algoResult (runAnalysis keys e st) = Some ?algo"
    by (simp add: run catchError_def)
  show "history (runAnalysis keys e st) = H"
    by (simp add: run catchError_def)
  show "storageAccepts e H \<Longrightarrow>
           error (runAnalysis keys e st) = None \<and> localStorage (runAnalysis keys e st) = Some H"
    by (simp add: run)
  show "\<not> storageAccepts e H \<Longrightarrow>
           error (runAnalysis keys e st) = Some QuotaExceededError \<and>
           localStorage (runAnalysis keys e st) = localStorage st"
    by (simp add: run catchError_def)
qed




section \<open>The fenced response in a session\<close>

lemma callGptWithRetry_answers:
  "currentKeyIndex st < length keys \<Longrightarrow>
   callGptWithRetry keys (answers content) m rc st =
     (Inr (sampleCompletion content), st\<lparr>callLog := callLog st @ [keys ! currentKeyIndex st]\<rparr>)"
  by (rule callGptWithRetry_success) (simp_all add: answers_def getClient_def)

lemma messageContent_sampleCompletion: "messageContent (sampleCompletion content) = content"
  by (simp add: messageContent_def sampleCompletion_def)

text \<open>
  C9: a remote response that is a document inside a fence with the language tag \<open>json\<close>
  (white space allowed between the fences and the document) is cleaned to the same text
  as the document alone; when the document holds no triple backtick that text is the
  trimmed document, and the document itself when it starts and ends with a character that
  is not white space. In a session whose remote response is the fenced document, the
  remote report is the normalised report that \<open>JSON.parse\<close> gives for the cleaned
  document, and it is the one put into the history entry. When the cleaned text of a
  response does not parse, the session fails with the \<open>SyntaxError\<close>: no report is set and
  nothing is saved.
\<close>

theorem fenced_json_parses_as_unfenced:
  assumes ws1: "\<forall>c \<in> set sep1. isWhitespace c" and ws2: "\<forall>c \<in> set sep2. isWhitespace c"
  shows
    "cleanJson (fenced sep1 doc sep2) = cleanJson doc \<and>
     (\<not> sublist ''```'' doc \<longrightarrow> cleanJson (fenced sep1 doc sep2) = trim doc) \<and>
     (doc \<noteq> [] \<and> \<not> isWhitespace (hd doc) \<and> \<not> isWhitespace (last doc) \<longrightarrow> trim doc = doc) \<and>
     (refFile st = Some rf \<and> userFile st = Some uf \<and>
      dataURL rf = Some refData \<and> dataURL uf = Some userData \<and>
      callGptWithRetry keys (chatCreate e) (refData, userData) 0 (pool st) = (Inr resp, p') \<longrightarrow>
        (messageContent resp = fenced sep1 doc sep2 \<and>
         JSON_parse e (cleanJson doc) = Some parsed \<longrightarrow>
           apiResult (runAnalysis keys e st) = Some (processReport parsed True) \<and>
           apiResult_h (last (history (runAnalysis keys e st))) = processReport parsed True \<and>
           refImageBase64 (last (history (runAnalysis keys e st))) = refData \<and>
           userImageBase64 (last (history (runAnalysis keys e st))) = userData \<and>
           (storageAccepts e (history (runAnalysis keys e st)) \<longrightarrow>
              error (runAnalysis keys e st) = None)) \<and>
        (JSON_parse e (cleanJson (messageContent resp)) = None \<longrightarrow>
           error (runAnalysis keys e st) = Some SyntaxError \<and>
           apiResult (runAnalysis keys e st) = None \<and>
           algoResult (runAnalysis keys e st) = None \<and>
           history (runAnalysis keys e st) = history st \<and>
           localStorage (runAnalysis keys e st) = localStorage st))"
proof (intro conjI impI)
  show c: "cleanJson (fenced sep1 doc sep2) = cleanJson doc"
    by (rule cleanJson_fenced [OF ws1 ws2])
  show "cleanJson (fenced sep1 doc sep2) = trim doc" if "\<not> sublist ''```'' doc"
    using that cleanJson_no_fence [of doc] c by simp
  show "trim doc = doc" if "doc \<noteq> [] \<and> \<not> isWhitespace (hd doc) \<and> \<not> isWhitespace (last doc)"
    using that by (simp add: trim_id)
next
  assume h: "refFile st = Some rf \<and> userFile st = Some uf \<and>
      dataURL rf = Some refData \<and> dataURL uf = Some userData \<and>
      callGptWithRetry keys (chatCreate e) (refData, userData) 0 (pool st) = (Inr resp, p')"
    and g: "messageContent resp = fenced sep1 doc sep2 \<and>
         JSON_parse e (cleanJson doc) = Some parsed"
  from h have h1: "refFile st = Some rf" and h2: "userFile st = Some uf"
    and h3: "dataURL rf = Some refData" and h4: "dataURL uf = Some userData"
    and cg: "callGptWithRetry keys (chatCreate e) (refData, userData) 0 (pool st) = (Inr resp, p')"
    by simp_all
  have pr: "JSON_parse e (cleanJson (messageContent resp)) = Some parsed"
    using g by (simp add: cleanJson_fenced [OF ws1 ws2])
  note fields = runAnalysis_parsed_fields [OF h1 h2 h3 h4 cg pr refl]
  show "apiResult (runAnalysis keys e st) = Some (processReport parsed True)"
    by (rule fields(1))
  show "apiResult_h (last (history (runAnalysis keys e st))) = processReport parsed True"
    by (simp add: fields(3))
  show "refImageBase64 (last (history (runAnalysis keys e st))) = refData"
    by (simp add: fields(3))
  show "userImageBase64 (last (history (runAnalysis keys e st))) = userData"
    by (simp add: fields(3))
  show "error (runAnalysis keys e st) = None"
    if "storageAccepts e (history (runAnalysis keys e st))"
    using that fields(4) unfolding fields(3) by simp
next
  assume h: "refFile st = Some rf \<and> userFile st = Some uf \<and>
      dataURL rf = Some refData \<and> dataURL uf = Some userData \<and>
      callGptWithRetry keys (chatCreate e) (refData, userData) 0 (pool st) = (Inr resp, p')"
    and pf: "JSON_parse e (cleanJson (messageContent resp)) = None"
  from h have h1: "refFile st = Some rf" and h2: "userFile st = Some uf"
    and h3: "dataURL rf = Some refData" and h4: "dataURL uf = Some userData"
    and cg: "callGptWithRetry keys (chatCreate e) (refData, userData) 0 (pool st) = (Inr resp, p')"
    by simp_all
  note run = runAnalysis_parse_failure [OF h1 h2 h3 h4 cg pf]
  show "error (runAnalysis keys e st) = Some SyntaxError" by (simp add: run catchError_def)
  show "apiResult (runAnalysis keys e st) = None" by (simp add: run catchError_def)
  show "algoResult (runAnalysis keys e st) = None" by (simp add: run catchError_def)
  show "history (runAnalysis keys e st) = history st" by (simp add: run catchError_def)
  show "localStorage (runAnalysis keys e st) = localStorage st" by (simp add: run catchError_def)
qed

theorem fenced_json_parses_as_unfenced_witness:
  "isWhitespace (CHR 0x0A) \<and>
   \<not> sublist ''```'' sampleJson \<and>
   sampleJson \<noteq> [] \<and> \<not> isWhitespace (hd sampleJson) \<and> \<not> isWhitespace (last sampleJson) \<and>
   cleanJson (fenced [CHR 0x0A] sampleJson [CHR 0x0A]) = sampleJson \<and>
   JSON_parse (sampleEnv (answers (fenced [CHR 0x0A] sampleJson [CHR 0x0A])) FetchRejected roomy)
     (cleanJson sampleJson) = Some (sampleRaw (9126 / 100) 82 44) \<and>
   apiResult (runAnalysis [''key-1'']
     (sampleEnv (answers (fenced [CHR 0x0A] sampleJson [CHR 0x0A])) FetchRejected roomy)
     (sampleState [])) = Some (processReport (sampleRaw (9126 / 100) 82 44) True) \<and>
   error (runAnalysis [''key-1'']
     (sampleEnv (answers (fenced [CHR 0x0A] sampleJson [CHR 0x0A])) FetchRejected roomy)
     (sampleState [])) = None \<and>
   JSON_parse (sampleEnv (answers ''not json'') FetchRejected roomy)
     (cleanJson (messageContent (sampleCompletion ''not json''))) = None \<and>
   error (runAnalysis [''key-1''] (sampleEnv (answers ''not json'') FetchRejected roomy)
     (sampleState [])) = Some SyntaxError"
proof -
  let ?fenced = "fenced [CHR 0x0A] sampleJson [CHR 0x0A]"
  let ?e1 = "sampleEnv (answers ?fenced) FetchRejected roomy"
  let ?e2 = "sampleEnv (answers ''not json'') FetchRejected roomy"
  have w: "\<forall>c \<in> set [CHR 0x0A]. isWhitespace c" by (simp add: isWhitespace_def)
  have tick: "\<not> sublist ''```'' sampleJson"
    by (rule no_tick_no_fence) (simp add: sampleJson_def)
  have ends: "sampleJson \<noteq> [] \<and> \<not> isWhitespace (hd sampleJson) \<and> \<not> isWhitespace (last sampleJson)"
    by (simp add: sampleJson_def isWhitespace_def)
  have nj: "cleanJson ''not json'' = ''not json''"
    by (simp add: cleanJson_def trim_def isWhitespace_def)
  have differ: "''not json'' \<noteq> sampleJson" by (simp add: sampleJson_def)
  have f: "refFile (sampleState []) = Some (sampleFile ''ref'')"
    "userFile (sampleState []) = Some (sampleFile ''user'')"
    "dataURL (sampleFile ''ref'') = Some ''data:ref''"
    "dataURL (sampleFile ''user'') = Some ''data:user''"
    by (simp_all add: sampleState_def sampleFile_def)
  have cg: "callGptWithRetry [''key-1''] (chatCreate (sampleEnv (answers content) FetchRejected roomy))
      (''data:ref'', ''data:user'') 0 (pool (sampleState [])) =
      (Inr (sampleCompletion content), pool0\<lparr>callLog := [''key-1'']\<rparr>)" for content
    using callGptWithRetry_answers [of pool0 "[''key-1'']" content "(''data:ref'', ''data:user'')" 0]
    by (simp add: sampleEnv_def sampleState_def pool0_def)
  have e: "JSON_parse (sampleEnv c FetchRejected roomy) = sampleParse"
    "storageAccepts (sampleEnv c FetchRejected roomy) = roomy" for c
    by (simp_all add: sampleEnv_def)
  note a = fenced_json_parses_as_unfenced
      [OF w w, where doc = sampleJson and e = ?e1 and st = "sampleState []"
         and rf = "sampleFile ''ref''" and uf = "sampleFile ''user''"
         and refData = "''data:ref''" and userData = "''data:user''"
         and keys = "[''key-1'']" and resp = "sampleCompletion ?fenced"
         and p' = "pool0\<lparr>callLog := [''key-1'']\<rparr>"
         and parsed = "sampleRaw (9126 / 100) 82 44"]
  note b = fenced_json_parses_as_unfenced
      [OF w w, where doc = sampleJson and e = ?e2 and st = "sampleState []"
         and rf = "sampleFile ''ref''" and uf = "sampleFile ''user''"
         and refData = "''data:ref''" and userData = "''data:user''"
         and keys = "[''key-1'']" and resp = "sampleCompletion ''not json''"
         and p' = "pool0\<lparr>callLog := [''key-1'']\<rparr>"]
  note a1 = a [THEN conjunct1]
  note a2 = a [THEN conjunct2, THEN conjunct1, rule_format, OF tick]
  note a3 = a [THEN conjunct2, THEN conjunct2, THEN conjunct1, rule_format, OF ends]
  have clean2: "cleanJson ?fenced = sampleJson" by (simp only: a2 a3)
  have clean1: "cleanJson sampleJson = sampleJson" using a1 clean2 by simp
  note clean = clean1 clean2
  have p1: "refFile (sampleState []) = Some (sampleFile ''ref'') \<and>
      userFile (sampleState []) = Some (sampleFile ''user'') \<and>
      dataURL (sampleFile ''ref'') = Some ''data:ref'' \<and>
      dataURL (sampleFile ''user'') = Some ''data:user'' \<and>
      callGptWithRetry [''key-1''] (chatCreate ?e1) (''data:ref'', ''data:user'') 0
        (pool (sampleState [])) =
        (Inr (sampleCompletion ?fenced), pool0\<lparr>callLog := [''key-1'']\<rparr>)"
    using f cg [of ?fenced] by simp
  have q1: "messageContent (sampleCompletion ?fenced) = ?fenced \<and>
      JSON_parse ?e1 (cleanJson sampleJson) = Some (sampleRaw (9126 / 100) 82 44)"
    by (simp add: messageContent_sampleCompletion e clean sampleParse_def)
  from a p1 q1 have r1: "apiResult (runAnalysis [''key-1''] ?e1 (sampleState [])) =
        Some (processReport (sampleRaw (9126 / 100) 82 44) True) \<and>
      (storageAccepts ?e1 (history (runAnalysis [''key-1''] ?e1 (sampleState []))) \<longrightarrow>
        error (runAnalysis [''key-1''] ?e1 (sampleState [])) = None)"
    by blast
  have p2: "refFile (sampleState []) = Some (sampleFile ''ref'') \<and>
      userFile (sampleState []) = Some (sampleFile ''user'') \<and>
      dataURL (sampleFile ''ref'') = Some ''data:ref'' \<and>
      dataURL (sampleFile ''user'') = Some ''data:user'' \<and>
      callGptWithRetry [''key-1''] (chatCreate ?e2) (''data:ref'', ''data:user'') 0
        (pool (sampleState [])) =
        (Inr (sampleCompletion ''not json''), pool0\<lparr>callLog := [''key-1'']\<rparr>)"
    using f cg [of "''not json''"] by simp
  have q2: "JSON_parse ?e2 (cleanJson (messageContent (sampleCompletion ''not json''))) = None"
    using differ by (simp add: messageContent_sampleCompletion e nj sampleParse_def)
  from b p2 q2 have r2: "error (runAnalysis [''key-1''] ?e2 (sampleState [])) = Some SyntaxError"
    by blast
  have acc: "storageAccepts ?e1 h" for h by (simp add: e roomy_def)
  have ws: "isWhitespace (CHR 0x0A)" by (simp add: isWhitespace_def)
  show ?thesis
    using ws tick ends clean(2) q1 r1 acc q2 r2 by blast
qed

end
